theory Spec2Isabelle
  imports Complex_Main "HOL-Library.Word"
begin

unbundle bit_operations_syntax

section \<open>Dynamic values\<close>

text \<open>
  A \<open>float64\<close> is modelled by its value: \<open>Finite q\<close> is the finite double whose exact
  value is the rational \<open>q\<close> (every finite double is a rational), \<open>NegZero\<close> is \<open>-0\<close>,
  and the three special values are constructors of their own. The type also holds rationals
  that no double has; every statement below is about all of them.
\<close>

datatype float64 = Finite rat | NegZero | PosInf | NegInf | NaN

text \<open>The operator \<open>>\<close> of Go on two \<open>float64\<close>: false as soon as one side is NaN.\<close>

fun f64_gt :: "float64 \<Rightarrow> float64 \<Rightarrow> bool" where
  "f64_gt NaN _ = False"
| "f64_gt _ NaN = False"
| "f64_gt PosInf PosInf = False"
| "f64_gt PosInf _ = True"
| "f64_gt _ PosInf = False"
| "f64_gt NegInf _ = False"
| "f64_gt _ NegInf = True"
| "f64_gt NegZero NegZero = False"
| "f64_gt NegZero (Finite b) = (0 > b)"
| "f64_gt (Finite a) NegZero = (a > 0)"
| "f64_gt (Finite a) (Finite b) = (a > b)"

text \<open>The operator \<open><=\<close> of Go on two \<open>float64\<close>.\<close>

fun f64_le :: "float64 \<Rightarrow> float64 \<Rightarrow> bool" where
  "f64_le NaN _ = False"
| "f64_le _ NaN = False"
| "f64_le NegInf _ = True"
| "f64_le _ NegInf = False"
| "f64_le _ PosInf = True"
| "f64_le PosInf _ = False"
| "f64_le NegZero NegZero = True"
| "f64_le NegZero (Finite b) = (0 \<le> b)"
| "f64_le (Finite a) NegZero = (a \<le> 0)"
| "f64_le (Finite a) (Finite b) = (a \<le> b)"

text \<open>
  The conversion \<open>float64(v)\<close> of an integer: exact up to 53 significant bits, and rounded
  to the nearest value of 53 significant bits, ties to the even one, beyond.
\<close>

fun bit_length :: "nat \<Rightarrow> nat" where
  "bit_length n = (if n = 0 then 0 else Suc (bit_length (n div 2)))"

declare bit_length.simps [simp del]

definition round53 :: "int \<Rightarrow> int" where
  "round53 v =
     (let m = nat \<bar>v\<bar>; n = bit_length m in
      if n \<le> 53 then v
      else
        let sh = n - 53; q = m div 2 ^ sh; r = m mod 2 ^ sh; h = 2 ^ (sh - 1);
            q' = (if h < r \<or> (r = h \<and> odd q) then q + 1 else q)
        in sgn v * int (q' * 2 ^ sh))"

definition float64_of_int :: "int \<Rightarrow> float64" where
  "float64_of_int v = Finite (of_int (round53 v))"

text \<open>The verb \<open>%.0f\<close> of \<open>fmt\<close>: no fraction digits, the value rounded half to even.\<close>

definition digit_char :: "nat \<Rightarrow> char" where
  "digit_char d = ''0123456789'' ! (d mod 10)"

fun decimal :: "nat \<Rightarrow> string" where
  "decimal n = (if n < 10 then [digit_char n] else decimal (n div 10) @ [digit_char n])"

declare decimal.simps [simp del]

definition round_half_even :: "rat \<Rightarrow> nat" where
  "round_half_even q =
     (let n = \<lfloor>q\<rfloor>; f = q - of_int n in
      nat (if f < 1 / 2 then n else if 1 / 2 < f then n + 1 else if even n then n else n + 1))"

fun fmt_f0 :: "float64 \<Rightarrow> string" where
  "fmt_f0 NaN = ''NaN''"
| "fmt_f0 PosInf = ''+Inf''"
| "fmt_f0 NegInf = ''-Inf''"
| "fmt_f0 NegZero = ''-0''"
| "fmt_f0 (Finite q) = (if q < 0 then ''-'' else '''') @ decimal (round_half_even \<bar>q\<bar>)"

text \<open>
  An \<open>interface{}\<close> value by its dynamic type. The YAML decoder produces \<open>nil\<close>, \<open>bool\<close>,
  \<open>int\<close>, \<open>int64\<close>, \<open>float64\<close>, \<open>string\<close>, \<open>[]interface{}\<close> and maps; the JSON decoder
  the same without the two integer types. \<open>VOther\<close> stands for a value of any other
  dynamic type (named by the string), which every type switch and assertion of the
  program sends to its default branch.
\<close>

datatype iface =
    VNil
  | VBool bool
  | VInt int
  | VInt64 int
  | VFloat64 float64
  | VString string
  | VSlice "iface list"
  | VMap "(string \<times> iface) list"
  | VOther string

type_synonym dict = "string \<rightharpoonup> iface"

section \<open>The policy model\<close>

record ToolAllowance =
  Tool :: string
  Actions :: "string list"
  Conditions :: "dict option"

record AgentPolicy =
  ID :: string
  Allow :: "ToolAllowance list"

record Policy =
  Version :: string
  Agents :: "AgentPolicy list"

text \<open>
  The engine's \<open>sync.RWMutex\<close> by its state: the number of readers holding it and whether
  a writer holds it. The calls of the engine are run here one after the other, so that
  none finds the mutex held by another. The watcher's handle is left out.
\<close>

record RWMutex =
  readers :: nat
  writer :: bool

record PolicyEngine =
  mu :: RWMutex
  policies :: "string \<rightharpoonup> Policy"
  baseDir :: string

definition RLock :: "PolicyEngine \<Rightarrow> PolicyEngine" where
  "RLock pe = pe\<lparr>mu := (mu pe)\<lparr>readers := Suc (readers (mu pe))\<rparr>\<rparr>"

definition RUnlock :: "PolicyEngine \<Rightarrow> PolicyEngine" where
  "RUnlock pe = pe\<lparr>mu := (mu pe)\<lparr>readers := readers (mu pe) - 1\<rparr>\<rparr>"

definition Lock :: "PolicyEngine \<Rightarrow> PolicyEngine" where
  "Lock pe = pe\<lparr>mu := (mu pe)\<lparr>writer := True\<rparr>\<rparr>"

definition Unlock :: "PolicyEngine \<Rightarrow> PolicyEngine" where
  "Unlock pe = pe\<lparr>mu := (mu pe)\<lparr>writer := False\<rparr>\<rparr>"

section \<open>checkConditions\<close>

text \<open>The type switch on \<open>float64\<close>, \<open>int\<close>, \<open>int64\<close>; \<open>None\<close> is its default branch.\<close>

fun toFloat64 :: "iface \<Rightarrow> float64 option" where
  "toFloat64 (VFloat64 v) = Some v"
| "toFloat64 (VInt v) = Some (float64_of_int v)"
| "toFloat64 (VInt64 v) = Some (float64_of_int v)"
| "toFloat64 _ = None"

text \<open>The three blocks of \<open>checkConditions\<close>, in the order of the source. Each returns the
  error of its block, or \<open>None\<close> when control falls through to the next block.\<close>

definition check_max_amount :: "dict \<Rightarrow> dict \<Rightarrow> string option" where
  "check_max_amount conditions params =
     (case conditions ''max_amount'' of
        None \<Rightarrow> None
      | Some maxAmount \<Rightarrow>
          (case params ''amount'' of
             None \<Rightarrow> None
           | Some amount \<Rightarrow>
               (case toFloat64 amount of
                  None \<Rightarrow> Some ''amount must be a number''
                | Some amountFloat \<Rightarrow>
                    (case toFloat64 maxAmount of
                       None \<Rightarrow> Some ''max_amount must be a number''
                     | Some maxFloat \<Rightarrow>
                         if f64_gt amountFloat maxFloat
                         then Some (''Amount exceeds max_amount='' @ fmt_f0 maxFloat)
                         else None))))"

text \<open>The loop over the configured currencies, left at the first string equal to the
  request's currency.\<close>

fun currency_allowed :: "iface list \<Rightarrow> string \<Rightarrow> bool" where
  "currency_allowed [] currencyStr = False"
| "currency_allowed (VString cStr # cs) currencyStr =
     (if cStr = currencyStr then True else currency_allowed cs currencyStr)"
| "currency_allowed (_ # cs) currencyStr = currency_allowed cs currencyStr"

definition check_currencies :: "dict \<Rightarrow> dict \<Rightarrow> string option" where
  "check_currencies conditions params =
     (case conditions ''currencies'' of
        Some (VSlice currencies) \<Rightarrow>
          (case params ''currency'' of
             None \<Rightarrow> None
           | Some (VString currencyStr) \<Rightarrow>
               if currency_allowed currencies currencyStr then None
               else Some (''Currency '' @ currencyStr @ '' not in allowed currencies'')
           | Some _ \<Rightarrow> Some ''currency must be a string'')
      | _ \<Rightarrow> None)"

definition check_folder_prefix :: "dict \<Rightarrow> dict \<Rightarrow> string option" where
  "check_folder_prefix conditions params =
     (case conditions ''folder_prefix'' of
        Some (VString prefix) \<Rightarrow>
          (case params ''path'' of
             None \<Rightarrow> None
           | Some (VString pathStr) \<Rightarrow>
               if length pathStr < length prefix \<or> take (length prefix) pathStr \<noteq> prefix
               then Some (''Path must start with prefix '' @ prefix)
               else None
           | Some _ \<Rightarrow> Some ''path must be a string'')
      | _ \<Rightarrow> None)"

text \<open>\<open>checkConditions\<close> returns the first error of the three blocks; \<open>None\<close> is \<open>nil\<close>.\<close>

definition checkConditions :: "dict \<Rightarrow> dict \<Rightarrow> string option" where
  "checkConditions conditions params =
     (case check_max_amount conditions params of
        Some err \<Rightarrow> Some err
      | None \<Rightarrow>
          (case check_currencies conditions params of
             Some err \<Rightarrow> Some err
           | None \<Rightarrow> check_folder_prefix conditions params))"

section \<open>Evaluate\<close>

text \<open>The inner loop over \<open>allow.Actions\<close>, left at the first action equal to the request's.\<close>

fun actionAllowed :: "string list \<Rightarrow> string \<Rightarrow> bool" where
  "actionAllowed [] action = False"
| "actionAllowed (a # as) action = (if a = action then True else actionAllowed as action)"

text \<open>
  The three nested loops of \<open>Evaluate\<close>. Each returns \<open>Some\<close> of the pair the method
  returns from inside the loop, or \<open>None\<close> when the loop runs to its end.
\<close>

fun eval_allow :: "ToolAllowance list \<Rightarrow> string \<Rightarrow> string \<Rightarrow> dict \<Rightarrow> (bool \<times> string) option" where
  "eval_allow [] tool action params = None"
| "eval_allow (allow # rest) tool action params =
     (if Tool allow \<noteq> tool then eval_allow rest tool action params
      else if \<not> actionAllowed (Actions allow) action then eval_allow rest tool action params
      else
        (case Conditions allow of
           None \<Rightarrow> Some (True, '''')
         | Some conditions \<Rightarrow>
             (case checkConditions conditions params of
                Some err \<Rightarrow> Some (False, err)
              | None \<Rightarrow> Some (True, ''''))))"

fun eval_agents :: "AgentPolicy list \<Rightarrow> string \<Rightarrow> string \<Rightarrow> string \<Rightarrow> dict \<Rightarrow> (bool \<times> string) option" where
  "eval_agents [] agentID tool action params = None"
| "eval_agents (agentPolicy # rest) agentID tool action params =
     (if ID agentPolicy \<noteq> agentID then eval_agents rest agentID tool action params
      else
        (case eval_allow (Allow agentPolicy) tool action params of
           Some r \<Rightarrow> Some r
         | None \<Rightarrow> eval_agents rest agentID tool action params))"

fun eval_policies :: "Policy list \<Rightarrow> string \<Rightarrow> string \<Rightarrow> string \<Rightarrow> dict \<Rightarrow> (bool \<times> string) option" where
  "eval_policies [] agentID tool action params = None"
| "eval_policies (policy # rest) agentID tool action params =
     (case eval_agents (Agents policy) agentID tool action params of
        Some r \<Rightarrow> Some r
      | None \<Rightarrow> eval_policies rest agentID tool action params)"

text \<open>
  Go leaves the order in which \<open>range\<close> visits a map unspecified. \<open>Evaluate\<close> therefore
  takes the order of one run as the list \<open>order\<close> of the keys visited: \<open>range_order\<close>
  says that it is an enumeration of the store's keys, each once, and \<open>visited\<close> is the
  sequence of policies the outer loop sees.
\<close>

definition range_order :: "PolicyEngine \<Rightarrow> string list \<Rightarrow> bool" where
  "range_order pe order = (distinct order \<and> set order = dom (policies pe))"

fun visited :: "(string \<rightharpoonup> Policy) \<Rightarrow> string list \<Rightarrow> Policy list" where
  "visited store [] = []"
| "visited store (k # ks) =
     (case store k of None \<Rightarrow> visited store ks | Some policy \<Rightarrow> policy # visited store ks)"

definition not_allowed :: "string \<Rightarrow> string \<Rightarrow> string \<Rightarrow> string" where
  "not_allowed agentID tool action =
     ''Agent '' @ agentID @ '' is not allowed to perform action '' @ action @ '' on tool '' @ tool"

text \<open>\<open>Evaluate\<close> returns its pair and the engine as the call leaves it: the read lock
  is taken on entry and released, by the deferred call, on every return.\<close>

definition Evaluate ::
  "PolicyEngine \<Rightarrow> string list \<Rightarrow> string \<Rightarrow> string \<Rightarrow> string \<Rightarrow> dict
     \<Rightarrow> (bool \<times> string) \<times> PolicyEngine" where
  "Evaluate pe order agentID tool action params =
     (let pe1 = RLock pe;
          result =
            (case eval_policies (visited (policies pe1) order) agentID tool action params of
               Some r \<Rightarrow> r
             | None \<Rightarrow> (False, not_allowed agentID tool action))
      in (result, RUnlock pe1))"

section \<open>Loading and validation\<close>

fun validate_allow :: "ToolAllowance list \<Rightarrow> string option" where
  "validate_allow [] = None"
| "validate_allow (allow # rest) =
     (if Tool allow = '''' then Some ''tool name is required''
      else if length (Actions allow) = 0
        then Some (''at least one action is required for tool '' @ Tool allow)
      else validate_allow rest)"

fun validate_agents :: "AgentPolicy list \<Rightarrow> string option" where
  "validate_agents [] = None"
| "validate_agents (agent # rest) =
     (if ID agent = '''' then Some ''agent ID is required''
      else
        (case validate_allow (Allow agent) of
           Some err \<Rightarrow> Some err
         | None \<Rightarrow> validate_agents rest))"

definition validatePolicy :: "Policy \<Rightarrow> string option" where
  "validatePolicy p =
     (if Version p = '''' then Some ''policy version is required''
      else validate_agents (Agents p))"

text \<open>
  The file system and the YAML decoder are outside the repository: \<open>readFile\<close> is what
  \<open>os.ReadFile\<close> returns for a path and \<open>unmarshal\<close> what \<open>yaml.Unmarshal\<close> makes of the
  bytes, \<open>Inl\<close> carrying the error's text. \<open>loadPolicyFile\<close> returns its error
  (\<open>None\<close> is \<open>nil\<close>) and the engine after the call.
\<close>

type_synonym fs = "string \<Rightarrow> string + string"
type_synonym decoder = "string \<Rightarrow> string + Policy"

definition loadPolicyFile ::
  "fs \<Rightarrow> decoder \<Rightarrow> PolicyEngine \<Rightarrow> string \<Rightarrow> string option \<times> PolicyEngine" where
  "loadPolicyFile readFile unmarshal pe filePath =
     (case readFile filePath of
        Inl err \<Rightarrow> (Some (''failed to read file: '' @ err), pe)
      | Inr data \<Rightarrow>
          (case unmarshal data of
             Inl err \<Rightarrow> (Some (''failed to parse YAML: '' @ err), pe)
           | Inr policy \<Rightarrow>
               (case validatePolicy policy of
                  Some err \<Rightarrow> (Some (''invalid policy: '' @ err), pe)
                | None \<Rightarrow>
                    (None,
                     Unlock ((Lock pe)\<lparr>policies := (policies (Lock pe))(filePath \<mapsto> policy)\<rparr>)))))"

text \<open>\<open>filepath.Ext\<close>: the suffix from the last dot of the last path element, scanning
  from the end of the path and stopping at a separator.\<close>

fun ext_scan :: "string \<Rightarrow> string \<Rightarrow> string" where
  "ext_scan [] acc = ''''"
| "ext_scan (c # cs) acc =
     (if c = CHR ''/'' then ''''
      else if c = CHR ''.'' then c # acc
      else ext_scan cs (c # acc))"

definition Ext :: "string \<Rightarrow> string" where
  "Ext path = ext_scan (rev path) []"

record DirEntry =
  Name :: string
  IsDir :: bool

text \<open>The loop of \<open>loadAllPolicies\<close> over the directory's entries; \<open>join\<close> is
  \<open>filepath.Join\<close>. An error of \<open>loadPolicyFile\<close> is printed and the loop goes on.\<close>

fun load_entries ::
  "(string \<Rightarrow> string \<Rightarrow> string) \<Rightarrow> fs \<Rightarrow> decoder \<Rightarrow> PolicyEngine \<Rightarrow> DirEntry list \<Rightarrow> PolicyEngine" where
  "load_entries join readFile unmarshal pe [] = pe"
| "load_entries join readFile unmarshal pe (entry # rest) =
     (if IsDir entry \<or> (Ext (Name entry) \<noteq> ''.yaml'' \<and> Ext (Name entry) \<noteq> ''.yml'')
      then load_entries join readFile unmarshal pe rest
      else load_entries join readFile unmarshal
             (snd (loadPolicyFile readFile unmarshal pe (join (baseDir pe) (Name entry)))) rest)"

text \<open>What \<open>os.ReadDir\<close> returns: the entries, or an error that \<open>os.IsNotExist\<close> accepts
  or not.\<close>

datatype readdir = Entries "DirEntry list" | NotExist | ReadDirError string

definition loadAllPolicies ::
  "(string \<Rightarrow> readdir) \<Rightarrow> (string \<Rightarrow> string \<Rightarrow> string) \<Rightarrow> fs \<Rightarrow> decoder \<Rightarrow> PolicyEngine
     \<Rightarrow> string option \<times> PolicyEngine" where
  "loadAllPolicies readDir join readFile unmarshal pe =
     (case readDir (baseDir pe) of
        NotExist \<Rightarrow> (Some (''policies directory does not exist: '' @ baseDir pe), pe)
      | ReadDirError err \<Rightarrow> (Some (''failed to read policies directory: '' @ err), pe)
      | Entries entries \<Rightarrow> (None, load_entries join readFile unmarshal pe entries))"

section \<open>The watcher\<close>

text \<open>\<open>fsnotify.Op\<close> is a \<open>uint32\<close> of flags: Create, Write, Remove, Rename, Chmod are
  \<open>1 << iota\<close>.\<close>

type_synonym Op = "32 word"

definition Create :: Op where "Create = 1"
definition Write :: Op where "Write = 2"
definition Remove :: Op where "Remove = 4"
definition Rename :: Op where "Rename = 8"
definition Chmod :: Op where "Chmod = 16"

record Event =
  EvName :: string
  EvOp :: Op

text \<open>
  The body of the \<open>Events\<close> case of \<open>watchForChanges\<close> for one event received;
  \<open>readFile\<close> is the file system as it is when the reload reads it.
\<close>

definition handleEvent :: "fs \<Rightarrow> decoder \<Rightarrow> PolicyEngine \<Rightarrow> Event \<Rightarrow> PolicyEngine" where
  "handleEvent readFile unmarshal pe event =
     (let pe1 =
            (if EvOp event AND Write = Write \<or> EvOp event AND Create = Create
             then snd (loadPolicyFile readFile unmarshal pe (EvName event))
             else pe)
      in if EvOp event AND Remove = Remove
         then Unlock ((Lock pe1)\<lparr>policies := (policies (Lock pe1))(EvName event := None)\<rparr>)
         else pe1)"

text \<open>
  What one \<open>select\<close> of the watcher's loop receives: an event (with the file system of
  that moment), an error, or the closing of one of the two channels. The loop handles
  the receipts one after the other and returns at the first closed channel.
\<close>

datatype receipt = GotEvent Event fs | GotError string | EventsClosed | ErrorsClosed

fun watchForChanges :: "decoder \<Rightarrow> PolicyEngine \<Rightarrow> receipt list \<Rightarrow> PolicyEngine" where
  "watchForChanges unmarshal pe [] = pe"
| "watchForChanges unmarshal pe (GotEvent event readFile # rest) =
     watchForChanges unmarshal (handleEvent readFile unmarshal pe event) rest"
| "watchForChanges unmarshal pe (GotError err # rest) = watchForChanges unmarshal pe rest"
| "watchForChanges unmarshal pe (EventsClosed # rest) = pe"
| "watchForChanges unmarshal pe (ErrorsClosed # rest) = pe"

section \<open>The gateway\<close>

text \<open>\<open>strings.TrimPrefix\<close>, and \<open>strings.Split\<close> for a separator of one byte.\<close>

definition TrimPrefix :: "string \<Rightarrow> string \<Rightarrow> string" where
  "TrimPrefix s prefix =
     (if take (length prefix) s = prefix then drop (length prefix) s else s)"

fun Split :: "string \<Rightarrow> char \<Rightarrow> string list" where
  "Split [] sep = [[]]"
| "Split (c # cs) sep =
     (if c = sep then [] # Split cs sep
      else (case Split cs sep of [] \<Rightarrow> [[c]] | x # xs \<Rightarrow> (c # x) # xs))"

text \<open>
  An \<open>http.ResponseWriter\<close>: the status sent (\<open>None\<close> before \<open>WriteHeader\<close>), the headers
  sent with it, and what was written to the body. A body is the text written, or the
  map handed to the JSON encoder, its keys in the encoder's (sorted) order. Once the
  status is sent, a second \<open>WriteHeader\<close> and later changes of the headers have no effect.
\<close>

datatype payload = Text string | JSON "(string \<times> string) list"

record ResponseWriter =
  status :: "nat option"
  headers :: "(string \<times> string) list"
  written :: "payload list"

definition new_writer :: ResponseWriter where
  "new_writer = \<lparr>status = None, headers = [], written = []\<rparr>"

definition header_Set :: "string \<Rightarrow> string \<Rightarrow> ResponseWriter \<Rightarrow> ResponseWriter" where
  "header_Set k v w =
     (if status w = None then w\<lparr>headers := filter (\<lambda>h. fst h \<noteq> k) (headers w) @ [(k, v)]\<rparr>
      else w)"

definition header_Add :: "string \<Rightarrow> string \<Rightarrow> ResponseWriter \<Rightarrow> ResponseWriter" where
  "header_Add k v w = (if status w = None then w\<lparr>headers := headers w @ [(k, v)]\<rparr> else w)"

definition header_Del :: "string \<Rightarrow> ResponseWriter \<Rightarrow> ResponseWriter" where
  "header_Del k w =
     (if status w = None then w\<lparr>headers := filter (\<lambda>h. fst h \<noteq> k) (headers w)\<rparr> else w)"

definition WriteHeader :: "nat \<Rightarrow> ResponseWriter \<Rightarrow> ResponseWriter" where
  "WriteHeader code w = (if status w = None then w\<lparr>status := Some code\<rparr> else w)"

text \<open>A write before any \<open>WriteHeader\<close> sends status 200 first.\<close>

definition write_body :: "payload \<Rightarrow> ResponseWriter \<Rightarrow> ResponseWriter" where
  "write_body p w = (WriteHeader 200 w)\<lparr>written := written w @ [p]\<rparr>"

text \<open>\<open>http.Error\<close>: plain-text headers, the status, and the message with a newline.\<close>

definition http_Error :: "ResponseWriter \<Rightarrow> string \<Rightarrow> nat \<Rightarrow> ResponseWriter" where
  "http_Error w err code =
     write_body (Text (err @ [CHR 0x0A]))
       (WriteHeader code
         (header_Set ''X-Content-Type-Options'' ''nosniff''
           (header_Set ''Content-Type'' ''text/plain; charset=utf-8''
             (header_Del ''Content-Length'' w))))"

definition StatusBadRequest :: nat where "StatusBadRequest = 400"
definition StatusForbidden :: nat where "StatusForbidden = 403"
definition StatusInternalServerError :: nat where "StatusInternalServerError = 500"

text \<open>
  The downstream tool is outside the repository. \<open>Failed err\<close>: building or sending the
  outbound request returned \<open>err\<close>, before anything was written. \<open>Responded code hs body
  cerr\<close>: the tool answered with that status and those headers (one pair per value, in the
  order the loops visit them), \<open>body\<close> is what \<open>io.Copy\<close> copied and \<open>cerr\<close> its error.
\<close>

datatype downstream = Failed string | Responded nat "(string \<times> string) list" string "string option"

type_synonym client = "string \<Rightarrow> string \<Rightarrow> downstream"

fun copy_headers :: "(string \<times> string) list \<Rightarrow> ResponseWriter \<Rightarrow> ResponseWriter" where
  "copy_headers [] w = w"
| "copy_headers ((key, val) # rest) w = copy_headers rest (header_Add key val w)"

definition forwardRequest ::
  "client \<Rightarrow> string \<Rightarrow> string \<Rightarrow> string \<Rightarrow> ResponseWriter \<Rightarrow> string option \<times> ResponseWriter" where
  "forwardRequest send baseURL action body w =
     (let url = baseURL @ ''/'' @ action in
      case send url body of
        Failed err \<Rightarrow> (Some err, w)
      | Responded code hs data cerr \<Rightarrow>
          (cerr, write_body (Text data) (WriteHeader code (copy_headers hs w))))"

record Gateway =
  policyEngine :: PolicyEngine
  toolURLs :: "string \<rightharpoonup> string"

definition NewGateway :: "PolicyEngine \<Rightarrow> Gateway" where
  "NewGateway pe =
     \<lparr>policyEngine = pe,
      toolURLs = [''payments'' \<mapsto> ''http://localhost:8081'', ''files'' \<mapsto> ''http://localhost:8082'']\<rparr>"

text \<open>
  A request as the handler reads it: the URL's path, what \<open>Header.Get("X-Agent-ID")\<close>
  returns (the empty string when the header is absent) and what \<open>io.ReadAll\<close> returns for
  the body.
\<close>

record Request =
  URLPath :: string
  XAgentID :: string
  Body :: "string + string"

text \<open>
  \<open>HandleRequest\<close>; \<open>unmarshal\<close> is \<open>json.Unmarshal\<close> into a map and \<open>order\<close> the order in
  which this call's \<open>Evaluate\<close> visits the store. The telemetry calls write to the audit
  log only and never to \<open>w\<close>; they are left out, and so is the engine after \<open>Evaluate\<close>.
\<close>

definition HandleRequest ::
  "(string \<Rightarrow> string + dict) \<Rightarrow> client \<Rightarrow> Gateway \<Rightarrow> string list \<Rightarrow> Request \<Rightarrow> ResponseWriter
     \<Rightarrow> ResponseWriter" where
  "HandleRequest unmarshal send g order r w =
     (let pathParts = Split (TrimPrefix (URLPath r) ''/'') CHR ''/'' in
      if length pathParts < 3 \<or> pathParts ! 0 \<noteq> ''tools''
      then http_Error w ''Invalid path. Expected: /tools/:tool/:action'' StatusBadRequest
      else
        let tool = pathParts ! 1; action = pathParts ! 2; agentID = XAgentID r in
        if agentID = '''' then http_Error w ''Missing X-Agent-ID header'' StatusBadRequest
        else
          (case Body r of
             Inl err \<Rightarrow> http_Error w (''Failed to read request body: '' @ err) StatusBadRequest
           | Inr bodyBytes \<Rightarrow>
               (case (if 0 < length bodyBytes then unmarshal bodyBytes else Inr Map.empty) of
                  Inl err \<Rightarrow> http_Error w (''Invalid JSON: '' @ err) StatusBadRequest
                | Inr params \<Rightarrow>
                    (case fst (Evaluate (policyEngine g) order agentID tool action params) of
                       (allowed, reason) \<Rightarrow>
                         if \<not> allowed
                         then write_body (JSON [(''error'', ''PolicyViolation''), (''reason'', reason)])
                                (WriteHeader StatusForbidden
                                  (header_Set ''Content-Type'' ''application/json'' w))
                         else
                           (case toolURLs g tool of
                              None \<Rightarrow> http_Error w (''Unknown tool: '' @ tool) StatusBadRequest
                            | Some toolURL \<Rightarrow>
                                (case forwardRequest send toolURL action bodyBytes w of
                                   (None, w') \<Rightarrow> w'
                                 | (Some err, w') \<Rightarrow>
                                     http_Error w' (''Failed to forward request: '' @ err)
                                       StatusInternalServerError))))))"

section \<open>Specification-side definitions\<close>

text \<open>
  The allowances that match a request, in the order in which the three loops of
  \<open>Evaluate\<close> meet them when the outer loop visits the policies \<open>ps\<close> in that order.
\<close>

definition matching :: "Policy list \<Rightarrow> string \<Rightarrow> string \<Rightarrow> string \<Rightarrow> ToolAllowance list" where
  "matching ps agentID tool action =
     concat (map (\<lambda>p. concat (map (\<lambda>ag.
        if ID ag = agentID
        then filter (\<lambda>al. Tool al = tool \<and> action \<in> set (Actions al)) (Allow ag)
        else []) (Agents p))) ps)"

text \<open>What one allowance decides for a parameter map: allowed without conditions or when
  all conditions pass, denied with the failure's reason otherwise.\<close>

definition decide :: "ToolAllowance \<Rightarrow> dict \<Rightarrow> bool \<times> string" where
  "decide al params =
     (case Conditions al of
        None \<Rightarrow> (True, '''')
      | Some conditions \<Rightarrow>
          (case checkConditions conditions params of
             None \<Rightarrow> (True, '''')
           | Some reason \<Rightarrow> (False, reason)))"

fun first :: "'a list \<Rightarrow> 'a option" where
  "first [] = None"
| "first (x # xs) = Some x"

text \<open>The policy a load of \<open>filePath\<close> publishes: the file is read, decoded and valid.\<close>

definition publishable :: "fs \<Rightarrow> decoder \<Rightarrow> string \<Rightarrow> Policy option" where
  "publishable readFile unmarshal filePath =
     (case readFile filePath of
        Inl err \<Rightarrow> None
      | Inr data \<Rightarrow>
          (case unmarshal data of
             Inl err \<Rightarrow> None
           | Inr policy \<Rightarrow> if validatePolicy policy = None then Some policy else None))"

text \<open>The directory entries that \<open>loadAllPolicies\<close> does not skip.\<close>

definition is_policy_file :: "DirEntry \<Rightarrow> bool" where
  "is_policy_file entry =
     (\<not> IsDir entry \<and> (Ext (Name entry) = ''.yaml'' \<or> Ext (Name entry) = ''.yml''))"

section \<open>Sample data\<close>

text \<open>The policy of the README, as the YAML decoder delivers it, alone in the store.\<close>

definition finance_conditions :: dict where
  "finance_conditions =
     [''max_amount'' \<mapsto> VInt 5000, ''currencies'' \<mapsto> VSlice [VString ''USD'', VString ''EUR'']]"

definition finance_allow :: ToolAllowance where
  "finance_allow =
     \<lparr>Tool = ''payments'', Actions = [''create'', ''refund''],
      Conditions = Some finance_conditions\<rparr>"

definition hr_conditions :: dict where
  "hr_conditions = [''folder_prefix'' \<mapsto> VString ''/hr-docs/'']"

definition hr_allow :: ToolAllowance where
  "hr_allow = \<lparr>Tool = ''files'', Actions = [''read''], Conditions = Some hr_conditions\<rparr>"

definition readme_policy :: Policy where
  "readme_policy =
     \<lparr>Version = ''1'',
      Agents = [\<lparr>ID = ''finance-agent'', Allow = [finance_allow]\<rparr>,
                \<lparr>ID = ''hr-agent'', Allow = [hr_allow]\<rparr>]\<rparr>"

definition free_mutex :: RWMutex where
  "free_mutex = \<lparr>readers = 0, writer = False\<rparr>"

definition readme_engine :: PolicyEngine where
  "readme_engine =
     \<lparr>mu = free_mutex, policies = [''policies/example.yaml'' \<mapsto> readme_policy],
      baseDir = ''policies''\<rparr>"

definition over_limit :: dict where
  "over_limit = [''amount'' \<mapsto> VFloat64 (Finite 5001), ''currency'' \<mapsto> VString ''USD'']"

definition at_limit :: dict where
  "at_limit = [''amount'' \<mapsto> VFloat64 (Finite 5000), ''currency'' \<mapsto> VString ''USD'']"

definition usd_eur :: dict where
  "usd_eur = [''currencies'' \<mapsto> VSlice [VString ''USD'', VString ''EUR'']]"

definition vendor_only :: dict where
  "vendor_only = [''vendor_id'' \<mapsto> VString ''V99'']"

definition gbp_request :: dict where
  "gbp_request = [''amount'' \<mapsto> VFloat64 (Finite 10), ''currency'' \<mapsto> VString ''GBP'']"

definition jpy_request :: dict where
  "jpy_request = [''amount'' \<mapsto> VFloat64 (Finite 10), ''currency'' \<mapsto> VString ''JPY'']"

text \<open>A policy that passes validation with two conditions of the wrong type: a number
  for \<open>folder_prefix\<close> and a single string for \<open>currencies\<close>.\<close>

definition misconfigured_policy :: Policy where
  "misconfigured_policy =
     \<lparr>Version = ''1'',
      Agents =
        [\<lparr>ID = ''hr-agent'',
          Allow = [\<lparr>Tool = ''files'', Actions = [''read''],
                    Conditions = Some [''folder_prefix'' \<mapsto> VInt 7]\<rparr>]\<rparr>,
         \<lparr>ID = ''finance-agent'',
          Allow = [\<lparr>Tool = ''payments'', Actions = [''create''],
                    Conditions = Some [''currencies'' \<mapsto> VString ''USD'']\<rparr>]\<rparr>]\<rparr>"

definition misconfigured_engine :: PolicyEngine where
  "misconfigured_engine =
     \<lparr>mu = free_mutex, policies = [''policies/bad.yaml'' \<mapsto> misconfigured_policy],
      baseDir = ''policies''\<rparr>"

definition legal_path :: dict where
  "legal_path = [''path'' \<mapsto> VString ''/legal/contract.docx'']"

text \<open>A policy directory with a good file, a file that does not parse, a file without
  version, a file that is no policy file and a sub-directory; \<open>filepath.Join\<close> on a
  directory and a plain name.\<close>

definition join_slash :: "string \<Rightarrow> string \<Rightarrow> string" where
  "join_slash dir name = dir @ ''/'' @ name"

definition sample_entries :: "DirEntry list" where
  "sample_entries =
     [\<lparr>Name = ''a.yaml'', IsDir = False\<rparr>, \<lparr>Name = ''b.yaml'', IsDir = False\<rparr>,
      \<lparr>Name = ''c.yml'', IsDir = False\<rparr>, \<lparr>Name = ''notes.txt'', IsDir = False\<rparr>,
      \<lparr>Name = ''old.yaml'', IsDir = True\<rparr>]"

definition sample_readDir :: "string \<Rightarrow> readdir" where
  "sample_readDir dir = (if dir = ''policies'' then Entries sample_entries else NotExist)"

definition sample_readFile :: fs where
  "sample_readFile path =
     (if path = ''policies/a.yaml'' then Inr ''readme''
      else if path = ''policies/b.yaml'' then Inr ''{''
      else if path = ''policies/c.yml'' then Inr ''unversioned''
      else if path = ''policies/notes.txt'' then Inr ''readme''
      else Inl ''no such file or directory'')"

definition sample_unmarshal :: decoder where
  "sample_unmarshal data =
     (if data = ''readme'' then Inr readme_policy
      else if data = ''unversioned'' then Inr \<lparr>Version = '''', Agents = []\<rparr>
      else Inl ''yaml: did not find expected node content'')"

definition empty_engine :: PolicyEngine where
  "empty_engine = \<lparr>mu = free_mutex, policies = Map.empty, baseDir = ''policies''\<rparr>"

definition edited_engine :: PolicyEngine where
  "edited_engine =
     \<lparr>mu = free_mutex, policies = [''policies/b.yaml'' \<mapsto> readme_policy], baseDir = ''policies''\<rparr>"

text \<open>A store of two sources, one per agent, and the event that removes the first.\<close>

definition finance_only_policy :: Policy where
  "finance_only_policy =
     \<lparr>Version = ''1'', Agents = [\<lparr>ID = ''finance-agent'', Allow = [finance_allow]\<rparr>]\<rparr>"

definition hr_only_policy :: Policy where
  "hr_only_policy = \<lparr>Version = ''1'', Agents = [\<lparr>ID = ''hr-agent'', Allow = [hr_allow]\<rparr>]\<rparr>"

definition two_source_engine :: PolicyEngine where
  "two_source_engine =
     \<lparr>mu = free_mutex,
      policies = [''policies/finance.yaml'' \<mapsto> finance_only_policy,
                  ''policies/hr.yaml'' \<mapsto> hr_only_policy],
      baseDir = ''policies''\<rparr>"

definition remove_finance :: Event where
  "remove_finance = \<lparr>EvName = ''policies/finance.yaml'', EvOp = Remove\<rparr>"

definition hr_doc :: dict where
  "hr_doc = [''path'' \<mapsto> VString ''/hr-docs/employee1.txt'']"

text \<open>The segments of a request's path as the handler splits it, and the parameters of
  a request whose body is read and decoded (an empty body gives the empty map).\<close>

definition pathParts :: "Request \<Rightarrow> string list" where
  "pathParts r = Split (TrimPrefix (URLPath r) ''/'') CHR ''/''"

definition decoded :: "(string \<Rightarrow> string + dict) \<Rightarrow> Request \<Rightarrow> dict option" where
  "decoded unmarshal r =
     (case Body r of
        Inl err \<Rightarrow> None
      | Inr bodyBytes \<Rightarrow>
          (case (if 0 < length bodyBytes then unmarshal bodyBytes else Inr Map.empty) of
             Inl err \<Rightarrow> None
           | Inr params \<Rightarrow> Some params))"

text \<open>A JSON decoder that knows one body, a downstream that refuses every connection,
  and requests for each way through the handler.\<close>

definition sample_json :: "string \<Rightarrow> string + dict" where
  "sample_json body =
     (if body = ''over-limit'' then Inr over_limit
      else Inl ''invalid character'')"

definition refusing_client :: client where
  "refusing_client url body = Failed ''connection refused''"

definition unknown_tool_request :: Request where
  "unknown_tool_request =
     \<lparr>URLPath = ''/tools/shell/run'', XAgentID = ''finance-agent'', Body = Inr ''''\<rparr>"

definition bad_path_request :: Request where
  "bad_path_request = \<lparr>URLPath = ''/health'', XAgentID = ''finance-agent'', Body = Inr ''''\<rparr>"

definition anonymous_request :: Request where
  "anonymous_request = \<lparr>URLPath = ''/tools/payments/create'', XAgentID = '''', Body = Inr ''''\<rparr>"

definition bad_json_request :: Request where
  "bad_json_request =
     \<lparr>URLPath = ''/tools/payments/create'', XAgentID = ''finance-agent'', Body = Inr ''{''\<rparr>"

definition over_limit_request :: Request where
  "over_limit_request =
     \<lparr>URLPath = ''/tools/payments/create'', XAgentID = ''finance-agent'',
      Body = Inr ''over-limit''\<rparr>"

definition shell_engine :: PolicyEngine where
  "shell_engine =
     \<lparr>mu = free_mutex,
      policies = [''policies/ops.yaml'' \<mapsto>
        \<lparr>Version = ''1'',
         Agents = [\<lparr>ID = ''ops-agent'',
                    Allow = [\<lparr>Tool = ''shell'', Actions = [''run''], Conditions = None\<rparr>]\<rparr>]\<rparr>],
      baseDir = ''policies''\<rparr>"

definition shell_request :: Request where
  "shell_request = \<lparr>URLPath = ''/tools/shell/run'', XAgentID = ''ops-agent'', Body = Inr ''''\<rparr>"

text \<open>An event that only changes a file's mode.\<close>

definition chmod_event :: Event where
  "chmod_event = \<lparr>EvName = ''policies/example.yaml'', EvOp = Chmod\<rparr>"

text \<open>A policy whose first allowance for a call is bound by conditions and whose second
  allowance for the same call is not.\<close>

definition open_allow :: ToolAllowance where
  "open_allow = \<lparr>Tool = ''payments'', Actions = [''create''], Conditions = None\<rparr>"

definition shadowed_policy :: Policy where
  "shadowed_policy =
     \<lparr>Version = ''1'',
      Agents = [\<lparr>ID = ''finance-agent'', Allow = [finance_allow, open_allow]\<rparr>]\<rparr>"

definition shadowed_engine :: PolicyEngine where
  "shadowed_engine =
     \<lparr>mu = free_mutex, policies = [''policies/shadow.yaml'' \<mapsto> shadowed_policy],
      baseDir = ''policies''\<rparr>"

text \<open>
  The shape \<open>/tools/{tool}/{action}\<close> of a request's path: the two names are not empty
  and hold no separator.
\<close>

definition path_shape :: "Request \<Rightarrow> string \<Rightarrow> string \<Rightarrow> bool" where
  "path_shape r tool action =
     (URLPath r = ''/tools/'' @ tool @ ''/'' @ action \<and> tool \<noteq> '''' \<and> action \<noteq> '''' \<and>
      CHR ''/'' \<notin> set tool \<and> CHR ''/'' \<notin> set action)"

text \<open>
  The number a decimal numeral denotes, read digit by digit, and the integer a printed
  \<open>%.0f\<close> denotes, with its sign.
\<close>

definition digit_value :: "char \<Rightarrow> nat" where
  "digit_value c = of_char c - 48"

definition decimal_value :: "string \<Rightarrow> nat" where
  "decimal_value s = foldl (\<lambda>n c. 10 * n + digit_value c) 0 s"

definition signed_value :: "string \<Rightarrow> int" where
  "signed_value s =
     (case s of
        [] \<Rightarrow> 0
      | c # cs \<Rightarrow> if c = CHR ''-'' then - int (decimal_value cs) else int (decimal_value s))"

text \<open>A bound with a fraction, the bound 2, and an amount above both.\<close>

definition half_bound :: dict where
  "half_bound = [''max_amount'' \<mapsto> VFloat64 (Finite (5 / 2))]"

definition two_bound :: dict where
  "two_bound = [''max_amount'' \<mapsto> VInt 2]"

definition amount_three :: dict where
  "amount_three = [''amount'' \<mapsto> VFloat64 (Finite 3)]"

text \<open>A denied request whose path has a fourth segment.\<close>

definition extra_segment_request :: Request where
  "extra_segment_request =
     \<lparr>URLPath = ''/tools/payments/create/extra'', XAgentID = ''finance-agent'',
      Body = Inr ''over-limit''\<rparr>"

section \<open>Lemmas on the evaluator\<close>

lemma first_append: "first (xs @ ys) = (case first xs of Some x \<Rightarrow> Some x | None \<Rightarrow> first ys)"
  by (cases xs) simp_all

lemma actionAllowed_iff: "actionAllowed as action \<longleftrightarrow> action \<in> set as"
  by (induction as) auto

lemma eval_allow_first:
  "eval_allow als tool action params =
     map_option (\<lambda>al. decide al params)
       (first (filter (\<lambda>al. Tool al = tool \<and> action \<in> set (Actions al)) als))"
  by (induction als) (simp_all add: actionAllowed_iff decide_def split: option.splits)

lemma eval_agents_first:
  "eval_agents ags agentID tool action params =
     map_option (\<lambda>al. decide al params)
       (first (concat (map (\<lambda>ag.
          if ID ag = agentID
          then filter (\<lambda>al. Tool al = tool \<and> action \<in> set (Actions al)) (Allow ag)
          else []) ags)))"
  by (induction ags) (simp_all add: eval_allow_first first_append split: option.splits)

lemma eval_policies_first:
  "eval_policies ps agentID tool action params =
     map_option (\<lambda>al. decide al params) (first (matching ps agentID tool action))"
  unfolding matching_def
  by (induction ps) (simp_all add: eval_agents_first first_append split: option.splits)

lemma policies_RLock [simp]: "policies (RLock pe) = policies pe"
  by (simp add: RLock_def)

lemma RUnlock_RLock [simp]: "RUnlock (RLock pe) = pe"
  by (simp add: RLock_def RUnlock_def)

lemma policies_Lock [simp]: "policies (Lock pe) = policies pe"
  by (simp add: Lock_def)

lemma policies_Unlock [simp]: "policies (Unlock pe) = policies pe"
  by (simp add: Unlock_def)

lemma baseDir_Lock [simp]: "baseDir (Lock pe) = baseDir pe"
  by (simp add: Lock_def)

lemma baseDir_Unlock [simp]: "baseDir (Unlock pe) = baseDir pe"
  by (simp add: Unlock_def)

lemma fst_Evaluate:
  "fst (Evaluate pe order agentID tool action params) =
     (case eval_policies (visited (policies pe) order) agentID tool action params of
        Some r \<Rightarrow> r
      | None \<Rightarrow> (False, not_allowed agentID tool action))"
  by (simp add: Evaluate_def Let_def)

lemma set_visited: "set (visited store ks) = {p. \<exists>k \<in> set ks. store k = Some p}"
  by (induction ks) (auto split: option.splits)

lemma set_matching:
  "set (matching ps agentID tool action) =
     {al. \<exists>p ag. p \<in> set ps \<and> ag \<in> set (Agents p) \<and> ID ag = agentID \<and> al \<in> set (Allow ag) \<and>
          Tool al = tool \<and> action \<in> set (Actions al)}"
  unfolding matching_def by (auto split: if_splits)

lemma matching_empty_iff:
  "matching ps agentID tool action = [] \<longleftrightarrow>
     \<not> (\<exists>p ag al. p \<in> set ps \<and> ag \<in> set (Agents p) \<and> ID ag = agentID \<and> al \<in> set (Allow ag) \<and>
          Tool al = tool \<and> action \<in> set (Actions al))"
proof -
  have "matching ps agentID tool action = [] \<longleftrightarrow> set (matching ps agentID tool action) = {}"
    by simp
  also have "\<dots> \<longleftrightarrow> \<not> (\<exists>p ag al. p \<in> set ps \<and> ag \<in> set (Agents p) \<and> ID ag = agentID \<and>
          al \<in> set (Allow ag) \<and> Tool al = tool \<and> action \<in> set (Actions al))"
    unfolding set_matching by blast
  finally show ?thesis .
qed

section \<open>Lemmas on numbers\<close>

lemma bit_length_le: "bit_length n \<le> k \<longleftrightarrow> n < 2 ^ k"
proof (induction n arbitrary: k rule: bit_length.induct)
  case (1 n)
  show ?case
  proof (cases "n = 0")
    case True
    then show ?thesis by (simp add: bit_length.simps)
  next
    case False
    show ?thesis
    proof (cases k)
      case 0
      with False show ?thesis by (simp add: bit_length.simps)
    next
      case (Suc j)
      have "bit_length n \<le> Suc j \<longleftrightarrow> bit_length (n div 2) \<le> j"
        using False by (subst bit_length.simps) simp
      also have "\<dots> \<longleftrightarrow> n div 2 < 2 ^ j" using 1 [OF False] .
      also have "\<dots> \<longleftrightarrow> n < 2 ^ Suc j" by auto
      finally show ?thesis using Suc by simp
    qed
  qed
qed

lemma float64_of_int_exact: "\<bar>v\<bar> < 2 ^ 53 \<Longrightarrow> float64_of_int v = Finite (of_int v)"
proof -
  assume a: "\<bar>v\<bar> < 2 ^ 53"
  have "nat \<bar>v\<bar> < 2 ^ 53" using a by (simp add: nat_less_iff)
  then have "bit_length (nat \<bar>v\<bar>) \<le> 53" by (simp add: bit_length_le)
  then show ?thesis by (simp add: float64_of_int_def round53_def Let_def)
qed

lemma round_half_even_of_nat: "round_half_even (of_nat n) = n"
  by (simp add: round_half_even_def)

lemma decimal_5000: "decimal 5000 = ''5000''"
  by (simp add: decimal.simps digit_char_def)

lemma round_half_even_5000: "round_half_even (5000 :: rat) = 5000"
  using round_half_even_of_nat [of 5000] by simp

lemma float64_of_int_5000: "float64_of_int 5000 = Finite 5000"
  using float64_of_int_exact [of 5000] by simp

lemma f64_le_not_gt: "f64_le a b \<Longrightarrow> \<not> f64_gt a b"
  by (cases a; cases b) simp_all

lemma below_ten:
  "k < (10 :: nat) \<Longrightarrow> k = 0 \<or> k = 1 \<or> k = 2 \<or> k = 3 \<or> k = 4 \<or> k = 5 \<or> k = 6 \<or> k = 7 \<or> k = 8 \<or> k = 9"
  by arith

lemma digit_value_digit_char: "digit_value (digit_char d) = d mod 10"
proof -
  have "d mod 10 < 10" by simp
  from below_ten [OF this] show ?thesis
    by (auto simp: digit_value_def digit_char_def)
qed

lemma digit_char_not_minus: "digit_char d \<noteq> CHR 0x2D"
proof -
  have "d mod 10 < 10" by simp
  from below_ten [OF this] show ?thesis
    by (auto simp: digit_char_def)
qed

lemma decimal_value_snoc: "decimal_value (xs @ [c]) = 10 * decimal_value xs + digit_value c"
  by (simp add: decimal_value_def)

lemma decimal_value_decimal: "decimal_value (decimal n) = n"
proof (induction n rule: decimal.induct)
  case (1 n)
  show ?case
  proof (cases "n < 10")
    case True
    then show ?thesis
      by (subst decimal.simps) (simp add: decimal_value_def digit_value_digit_char)
  next
    case False
    with 1 have "decimal_value (decimal (n div 10)) = n div 10" by simp
    with False show ?thesis
      by (subst decimal.simps) (simp add: decimal_value_snoc digit_value_digit_char)
  qed
qed

lemma decimal_first: "\<exists>d ds. decimal n = digit_char d # ds"
proof (induction n rule: decimal.induct)
  case (1 n)
  show ?case
  proof (cases "n < 10")
    case True
    then show ?thesis by (subst decimal.simps) auto
  next
    case False
    with 1 obtain d ds where "decimal (n div 10) = digit_char d # ds" by blast
    with False show ?thesis by (subst decimal.simps) auto
  qed
qed

lemma signed_value_decimal: "signed_value (decimal n) = int n"
proof -
  obtain d ds where e: "decimal n = digit_char d # ds" using decimal_first by blast
  have "signed_value (decimal n) = int (decimal_value (decimal n))"
    unfolding signed_value_def e by (simp add: digit_char_not_minus)
  then show ?thesis by (simp add: decimal_value_decimal)
qed

lemma signed_value_minus_decimal: "signed_value (CHR 0x2D # decimal n) = - int n"
  by (simp add: signed_value_def decimal_value_decimal)

lemma round_half_even_int:
  assumes "0 \<le> r"
  shows "int (round_half_even r) =
     (if r - of_int \<lfloor>r\<rfloor> < 1 / 2 then \<lfloor>r\<rfloor>
      else if 1 / 2 < r - of_int \<lfloor>r\<rfloor> then \<lfloor>r\<rfloor> + 1
      else if even \<lfloor>r\<rfloor> then \<lfloor>r\<rfloor> else \<lfloor>r\<rfloor> + 1)"
proof -
  have "0 \<le> \<lfloor>r\<rfloor>" using assms by simp
  then show ?thesis by (simp add: round_half_even_def Let_def)
qed

lemma round_half_even_close:
  assumes "0 \<le> r"
  shows "\<bar>of_int (int (round_half_even r)) - r\<bar> \<le> 1 / 2"
proof -
  define n where "n = \<lfloor>r\<rfloor>"
  have b: "of_int n \<le> r" "r < of_int n + 1" unfolding n_def by linarith+
  note e = round_half_even_int [OF assms, folded n_def]
  consider "r - of_int n < 1 / 2" | "1 / 2 < r - of_int n" | "r - of_int n = 1 / 2"
    by linarith
  then show ?thesis
  proof cases
    case 1
    then have "of_int (int (round_half_even r)) = (of_int n :: rat)" using e by simp
    with 1 b show ?thesis unfolding abs_le_iff by linarith
  next
    case 2
    then have "of_int (int (round_half_even r)) = (of_int n + 1 :: rat)" using e by simp
    with 2 b show ?thesis unfolding abs_le_iff by linarith
  next
    case 3
    then have "of_int (int (round_half_even r)) = (of_int n :: rat) \<or>
               of_int (int (round_half_even r)) = (of_int n + 1 :: rat)"
      using e by simp
    with 3 show ?thesis unfolding abs_le_iff by linarith
  qed
qed

lemma round_half_even_tie:
  assumes "0 \<le> r" and "\<bar>of_int (int (round_half_even r)) - r\<bar> = 1 / 2"
  shows "even (round_half_even r)"
proof -
  define n where "n = \<lfloor>r\<rfloor>"
  have b: "of_int n \<le> r" "r < of_int n + 1" unfolding n_def by linarith+
  note e = round_half_even_int [OF assms(1), folded n_def]
  consider "r - of_int n < 1 / 2" | "1 / 2 < r - of_int n" | "r - of_int n = 1 / 2"
    by linarith
  then have "even (int (round_half_even r))"
  proof cases
    case 1
    then have "of_int (int (round_half_even r)) = (of_int n :: rat)" using e by simp
    with 1 b assms(2) have False by (simp add: abs_if split: if_splits)
    then show ?thesis ..
  next
    case 2
    then have "of_int (int (round_half_even r)) = (of_int n + 1 :: rat)" using e by simp
    with 2 b assms(2) have False by (simp add: abs_if split: if_splits)
    then show ?thesis ..
  next
    case 3
    then show ?thesis using e by simp
  qed
  then show ?thesis by simp
qed

lemma signed_value_fmt_f0:
  "signed_value (fmt_f0 (Finite q)) =
     (if q < 0 then - int (round_half_even (- q)) else int (round_half_even q))"
  by (simp add: signed_value_minus_decimal signed_value_decimal abs_if)

lemma fmt_f0_close:
  "\<bar>of_int (signed_value (fmt_f0 (Finite q))) - q\<bar> \<le> 1 / 2"
proof (cases "q < 0")
  case True
  then have "0 \<le> - q" by simp
  from round_half_even_close [OF this] True show ?thesis
    unfolding signed_value_fmt_f0 by (simp add: abs_if split: if_splits)
next
  case False
  then have "0 \<le> q" by simp
  from round_half_even_close [OF this] False show ?thesis
    unfolding signed_value_fmt_f0 by simp
qed

lemma fmt_f0_tie:
  assumes "\<bar>of_int (signed_value (fmt_f0 (Finite q))) - q\<bar> = 1 / 2"
  shows "even (signed_value (fmt_f0 (Finite q)))"
proof (cases "q < 0")
  case True
  then have p: "0 \<le> - q" by simp
  have "\<bar>of_int (int (round_half_even (- q))) - (- q)\<bar> = 1 / 2"
    using assms True unfolding signed_value_fmt_f0 by (simp add: abs_if split: if_splits)
  from round_half_even_tie [OF p this] True show ?thesis
    unfolding signed_value_fmt_f0 by simp
next
  case False
  then have p: "0 \<le> q" by simp
  have "\<bar>of_int (int (round_half_even q)) - q\<bar> = 1 / 2"
    using assms False unfolding signed_value_fmt_f0 by simp
  from round_half_even_tie [OF p this] False show ?thesis
    unfolding signed_value_fmt_f0 by simp
qed

lemma fmt_f0_integral: "fmt_f0 (Finite (of_int n)) = (if n < 0 then ''-'' else '''') @ decimal (nat \<bar>n\<bar>)"
proof -
  have "round_half_even \<bar>of_int n\<bar> = nat \<bar>n\<bar>"
    using round_half_even_of_nat [of "nat \<bar>n\<bar>"] by simp
  then show ?thesis by simp
qed

lemma f64_gt_bound: "f64_gt a b \<Longrightarrow> b \<noteq> NaN \<and> b \<noteq> PosInf"
  by (cases a; cases b) simp_all

lemma decimal_2: "decimal 2 = ''2''"
  by (simp add: decimal.simps digit_char_def)

lemma round_half_even_5_2: "round_half_even (5 / 2) = 2"
proof -
  have "\<lfloor>5 / 2 :: rat\<rfloor> = 2" by linarith
  then show ?thesis by (simp add: round_half_even_def Let_def)
qed

lemma round_half_even_2: "round_half_even (2 :: rat) = 2"
  using round_half_even_of_nat [of 2] by simp

lemma float64_of_int_2: "float64_of_int 2 = Finite 2"
  using float64_of_int_exact [of 2] by simp

section \<open>Lemmas on the sample data\<close>

lemma range_order_readme: "range_order readme_engine [''policies/example.yaml'']"
  by (simp add: range_order_def readme_engine_def)

lemma visited_readme:
  "visited (policies readme_engine) [''policies/example.yaml''] = [readme_policy]"
  by (simp add: readme_engine_def)

lemma matching_readme:
  "matching [readme_policy] ''finance-agent'' ''payments'' ''create'' = [finance_allow]"
  by (simp add: matching_def readme_policy_def finance_allow_def)

lemma check_over:
  "checkConditions finance_conditions over_limit = Some ''Amount exceeds max_amount=5000''"
  by (simp add: over_limit_def finance_conditions_def checkConditions_def check_max_amount_def
      float64_of_int_5000 round_half_even_5000 decimal_5000)

lemma decide_over: "decide finance_allow over_limit = (False, ''Amount exceeds max_amount=5000'')"
  by (simp add: decide_def finance_allow_def check_over)

lemma over_limit_amount: "over_limit ''amount'' = Some (VFloat64 (Finite 5001))"
  by (simp add: over_limit_def)

lemma at_limit_amount: "at_limit ''amount'' = Some (VFloat64 (Finite 5000))"
  by (simp add: at_limit_def)

lemma finance_max: "finance_conditions ''max_amount'' = Some (VInt 5000)"
  by (simp add: finance_conditions_def)

section \<open>Evaluate: the first matching allowance decides\<close>

text \<open>
  C1. Whatever the order in which the store is visited, \<open>Evaluate\<close> returns what the first
  allowance met that matches agent, tool and action decides: \<open>(true, "")\<close> when it has no
  conditions or all of them pass, \<open>(false, reason)\<close> when one fails, and no later allowance
  is consulted. When no stored policy holds a matching allowance, the result is the
  denial that names agent, action and tool.
\<close>

theorem Evaluate_first_match:
  assumes "range_order pe order"
  shows "fst (Evaluate pe order agentID tool action params) =
           (case matching (visited (policies pe) order) agentID tool action of
              [] \<Rightarrow> (False, ''Agent '' @ agentID @ '' is not allowed to perform action '' @ action
                        @ '' on tool '' @ tool)
            | al # _ \<Rightarrow> decide al params)
         \<and> (matching (visited (policies pe) order) agentID tool action = [] \<longleftrightarrow>
              \<not> (\<exists>src p ag al. policies pe src = Some p \<and> ag \<in> set (Agents p) \<and> ID ag = agentID \<and>
                    al \<in> set (Allow ag) \<and> Tool al = tool \<and> action \<in> set (Actions al)))"
proof -
  have s: "set (visited (policies pe) order) = ran (policies pe)"
    using assms by (auto simp: set_visited range_order_def ran_def)
  have "fst (Evaluate pe order agentID tool action params) =
           (case matching (visited (policies pe) order) agentID tool action of
              [] \<Rightarrow> (False, ''Agent '' @ agentID @ '' is not allowed to perform action '' @ action
                        @ '' on tool '' @ tool)
            | al # _ \<Rightarrow> decide al params)"
    by (cases "matching (visited (policies pe) order) agentID tool action")
       (simp_all add: fst_Evaluate eval_policies_first not_allowed_def)
  moreover have "matching (visited (policies pe) order) agentID tool action = [] \<longleftrightarrow>
              \<not> (\<exists>src p ag al. policies pe src = Some p \<and> ag \<in> set (Agents p) \<and> ID ag = agentID \<and>
                    al \<in> set (Allow ag) \<and> Tool al = tool \<and> action \<in> set (Actions al))"
    unfolding matching_empty_iff s ran_def by blast
  ultimately show ?thesis by blast
qed

lemma range_order_shadowed: "range_order shadowed_engine [''policies/shadow.yaml'']"
  by (simp add: range_order_def shadowed_engine_def)

lemma visited_shadowed:
  "visited (policies shadowed_engine) [''policies/shadow.yaml''] = [shadowed_policy]"
  by (simp add: shadowed_engine_def)

lemma matching_shadowed:
  "matching [shadowed_policy] ''finance-agent'' ''payments'' ''create'' =
     [finance_allow, open_allow]"
  by (simp add: matching_def shadowed_policy_def finance_allow_def open_allow_def)

theorem Evaluate_first_match_witness:
  "range_order readme_engine [''policies/example.yaml''] \<and>
   fst (Evaluate readme_engine [''policies/example.yaml''] ''finance-agent'' ''payments''
          ''create'' over_limit) = (False, ''Amount exceeds max_amount=5000'') \<and>
   range_order shadowed_engine [''policies/shadow.yaml''] \<and>
   matching (visited (policies shadowed_engine) [''policies/shadow.yaml''])
     ''finance-agent'' ''payments'' ''create'' = [finance_allow, open_allow] \<and>
   decide open_allow over_limit = (True, '''') \<and>
   fst (Evaluate shadowed_engine [''policies/shadow.yaml''] ''finance-agent'' ''payments''
          ''create'' over_limit) = (False, ''Amount exceeds max_amount=5000'')"
proof -
  have "fst (Evaluate shadowed_engine [''policies/shadow.yaml''] ''finance-agent'' ''payments''
          ''create'' over_limit) =
        (case matching (visited (policies shadowed_engine) [''policies/shadow.yaml''])
                ''finance-agent'' ''payments'' ''create'' of
           [] \<Rightarrow> (False, ''Agent '' @ ''finance-agent'' @ '' is not allowed to perform action ''
                     @ ''create'' @ '' on tool '' @ ''payments'')
         | al # _ \<Rightarrow> decide al over_limit)"
    using Evaluate_first_match [OF range_order_shadowed] by (rule conjunct1)
  then have shadow: "fst (Evaluate shadowed_engine [''policies/shadow.yaml''] ''finance-agent''
          ''payments'' ''create'' over_limit) = (False, ''Amount exceeds max_amount=5000'')"
    unfolding visited_shadowed matching_shadowed by (simp add: decide_over)
  have later: "decide open_allow over_limit = (True, '''')"
    by (simp add: decide_def open_allow_def)
  have m: "matching (visited (policies shadowed_engine) [''policies/shadow.yaml''])
     ''finance-agent'' ''payments'' ''create'' = [finance_allow, open_allow]"
    unfolding visited_shadowed by (rule matching_shadowed)
  have "fst (Evaluate readme_engine [''policies/example.yaml''] ''finance-agent'' ''payments''
          ''create'' over_limit) =
        (case matching (visited (policies readme_engine) [''policies/example.yaml''])
                ''finance-agent'' ''payments'' ''create'' of
           [] \<Rightarrow> (False, ''Agent '' @ ''finance-agent'' @ '' is not allowed to perform action ''
                     @ ''create'' @ '' on tool '' @ ''payments'')
         | al # _ \<Rightarrow> decide al over_limit)"
    using Evaluate_first_match [OF range_order_readme] by (rule conjunct1)
  then have "fst (Evaluate readme_engine [''policies/example.yaml''] ''finance-agent''
          ''payments'' ''create'' over_limit) = (False, ''Amount exceeds max_amount=5000'')"
    unfolding visited_readme matching_readme by (simp add: decide_over)
  with shadow later m range_order_readme range_order_shadowed show ?thesis by blast
qed

section \<open>Conditions\<close>

text \<open>
  C2. A condition is checked only when its request parameter is present: without
  \<open>amount\<close> the \<open>max_amount\<close> block returns no error, without \<open>currency\<close> the \<open>currencies\<close>
  block returns none, whatever set is configured, and without \<open>path\<close> the \<open>folder_prefix\<close>
  block returns none. Without \<open>currency\<close> the result of \<open>checkConditions\<close> is that of the
  two other blocks, and without all three parameters it is \<open>nil\<close>.
\<close>

theorem absent_parameter_passes:
  "(params ''amount'' = None \<longrightarrow> check_max_amount conditions params = None) \<and>
   (params ''currency'' = None \<longrightarrow> check_currencies conditions params = None) \<and>
   (params ''path'' = None \<longrightarrow> check_folder_prefix conditions params = None) \<and>
   (params ''currency'' = None \<longrightarrow>
      checkConditions conditions params =
        (case check_max_amount conditions params of
           Some err \<Rightarrow> Some err
         | None \<Rightarrow> check_folder_prefix conditions params)) \<and>
   (params ''amount'' = None \<and> params ''currency'' = None \<and> params ''path'' = None \<longrightarrow>
      checkConditions conditions params = None)"
  by (simp add: checkConditions_def check_max_amount_def check_currencies_def
      check_folder_prefix_def split: option.splits iface.splits)

theorem absent_parameter_passes_witness:
  "vendor_only ''amount'' = None \<and> vendor_only ''currency'' = None \<and> vendor_only ''path'' = None \<and>
   check_currencies usd_eur vendor_only = None \<and> checkConditions usd_eur vendor_only = None"
  using absent_parameter_passes [of vendor_only usd_eur]
  by (simp add: vendor_only_def)

text \<open>
  C3, as amended. With a numeric \<open>max_amount\<close> and a numeric \<open>amount\<close>, both converted to
  \<open>float64\<close> (\<open>b\<close> and \<open>a\<close>), the \<open>max_amount\<close> block passes when \<open>a <= b\<close> and fails exactly
  when \<open>a > b\<close>. On failure \<open>checkConditions\<close> returns the reason that ends with \<open>b\<close>
  printed by \<open>%.0f\<close>, and \<open>b\<close> is then neither NaN nor \<open>+Inf\<close>. What is printed is \<open>-Inf\<close>,
  \<open>-0\<close>, or the decimal numeral of the integer nearest to \<open>b\<close>, the even one of the two at a
  tie: the numeral read back is at most one half from \<open>b\<close>. For an integral bound it is
  the numeral of the bound itself, so that the reason names 5000 for the bound 5000.
\<close>

theorem max_amount_bound_rounded:
  assumes "conditions ''max_amount'' = Some maxAmount"
    and "params ''amount'' = Some amount"
    and "toFloat64 amount = Some a"
    and "toFloat64 maxAmount = Some b"
  shows "(f64_le a b \<longrightarrow> check_max_amount conditions params = None) \<and>
         (check_max_amount conditions params \<noteq> None \<longleftrightarrow> f64_gt a b) \<and>
         (f64_gt a b \<longrightarrow>
            checkConditions conditions params = Some (''Amount exceeds max_amount='' @ fmt_f0 b) \<and>
            b \<noteq> NaN \<and> b \<noteq> PosInf) \<and>
         (b = NegInf \<longrightarrow> fmt_f0 b = ''-Inf'') \<and>
         (b = NegZero \<longrightarrow> fmt_f0 b = ''-0'') \<and>
         (\<forall>q. b = Finite q \<longrightarrow>
            \<bar>of_int (signed_value (fmt_f0 b)) - q\<bar> \<le> 1 / 2 \<and>
            (\<bar>of_int (signed_value (fmt_f0 b)) - q\<bar> = 1 / 2 \<longrightarrow> even (signed_value (fmt_f0 b)))) \<and>
         (\<forall>n. b = Finite (of_int n) \<longrightarrow>
            fmt_f0 b = (if n < 0 then ''-'' else '''') @ decimal (nat \<bar>n\<bar>) \<and>
            decimal_value (decimal (nat \<bar>n\<bar>)) = nat \<bar>n\<bar> \<and>
            signed_value (fmt_f0 b) = n)"
proof -
  have 1: "f64_le a b \<longrightarrow> check_max_amount conditions params = None"
    using assms by (auto simp: check_max_amount_def dest: f64_le_not_gt)
  have 2: "check_max_amount conditions params \<noteq> None \<longleftrightarrow> f64_gt a b"
    using assms by (auto simp: check_max_amount_def)
  have 3: "f64_gt a b \<longrightarrow>
            checkConditions conditions params = Some (''Amount exceeds max_amount='' @ fmt_f0 b) \<and>
            b \<noteq> NaN \<and> b \<noteq> PosInf"
    using assms by (auto simp: checkConditions_def check_max_amount_def dest: f64_gt_bound)
  have 4: "\<forall>q. b = Finite q \<longrightarrow>
            \<bar>of_int (signed_value (fmt_f0 b)) - q\<bar> \<le> 1 / 2 \<and>
            (\<bar>of_int (signed_value (fmt_f0 b)) - q\<bar> = 1 / 2 \<longrightarrow> even (signed_value (fmt_f0 b)))"
    using fmt_f0_close fmt_f0_tie by blast
  have 5: "fmt_f0 b = (if n < 0 then ''-'' else '''') @ decimal (nat \<bar>n\<bar>) \<and>
            decimal_value (decimal (nat \<bar>n\<bar>)) = nat \<bar>n\<bar> \<and>
            signed_value (fmt_f0 b) = n" if "b = Finite (of_int n)" for n
  proof -
    have "signed_value (fmt_f0 (Finite (of_int n))) = n"
      unfolding fmt_f0_integral
      by (simp add: signed_value_minus_decimal signed_value_decimal)
    with that show ?thesis by (simp only: fmt_f0_integral decimal_value_decimal)
  qed
  then have 5: "\<forall>n. b = Finite (of_int n) \<longrightarrow>
            fmt_f0 b = (if n < 0 then ''-'' else '''') @ decimal (nat \<bar>n\<bar>) \<and>
            decimal_value (decimal (nat \<bar>n\<bar>)) = nat \<bar>n\<bar> \<and>
            signed_value (fmt_f0 b) = n"
    by blast
  have 6: "b = NegInf \<longrightarrow> fmt_f0 b = ''-Inf''"
    by simp
  have 7: "b = NegZero \<longrightarrow> fmt_f0 b = ''-0''"
    by simp
  show ?thesis
    using 1 2 3 6 7 4 5 by (intro conjI) assumption+
qed

theorem max_amount_bound_rounded_witness:
  "finance_conditions ''max_amount'' = Some (VInt 5000) \<and>
   over_limit ''amount'' = Some (VFloat64 (Finite 5001)) \<and>
   at_limit ''amount'' = Some (VFloat64 (Finite 5000)) \<and>
   toFloat64 (VInt 5000) = Some (Finite 5000) \<and>
   f64_le (Finite 5000) (Finite 5000) \<and> check_max_amount finance_conditions at_limit = None \<and>
   f64_gt (Finite 5001) (Finite 5000) \<and>
   checkConditions finance_conditions over_limit = Some ''Amount exceeds max_amount=5000'' \<and>
   signed_value (fmt_f0 (Finite 5000)) = 5000"
proof -
  have m: "toFloat64 (VInt 5000) = Some (Finite 5000)"
    by (simp add: float64_of_int_5000)
  have t1: "toFloat64 (VFloat64 (Finite 5001)) = Some (Finite 5001)"
    by simp
  have t0: "toFloat64 (VFloat64 (Finite 5000)) = Some (Finite 5000)"
    by simp
  note over = max_amount_bound_rounded [where conditions = finance_conditions
      and params = over_limit, OF finance_max over_limit_amount t1 m]
  note at = max_amount_bound_rounded [where conditions = finance_conditions
      and params = at_limit, OF finance_max at_limit_amount t0 m]
  have a: "check_max_amount finance_conditions at_limit = None"
    using at by simp
  have b: "checkConditions finance_conditions over_limit =
             Some (''Amount exceeds max_amount='' @ fmt_f0 (Finite 5000))"
    using over by simp
  note integral = over [THEN conjunct2, THEN conjunct2, THEN conjunct2, THEN conjunct2,
      THEN conjunct2, THEN conjunct2, rule_format, of 5000]
  have e: "Finite 5000 = Finite (of_int 5000)"
    by simp
  have c: "signed_value (fmt_f0 (Finite 5000)) = 5000"
    using integral [OF e] by (rule conjunct2 [THEN conjunct2])
  from b have d: "checkConditions finance_conditions over_limit =
             Some ''Amount exceeds max_amount=5000''"
    by (simp add: round_half_even_5000 decimal_5000)
  from finance_max over_limit_amount at_limit_amount m a c d show ?thesis by simp
qed

text \<open>
  A bound with a fraction is not named by the reason: against the bound 2.5 the amount 3
  fails with the same reason as against the bound 2.
\<close>

theorem fractional_bound_printed_rounded:
  "checkConditions half_bound amount_three = Some ''Amount exceeds max_amount=2'' \<and>
   checkConditions two_bound amount_three = Some ''Amount exceeds max_amount=2''"
  by (simp add: half_bound_def two_bound_def amount_three_def checkConditions_def
      check_max_amount_def float64_of_int_2 round_half_even_5_2 round_half_even_2 decimal_2)

text \<open>
  C4. The reason of a failed \<open>currencies\<close> condition carries the currency of the request:
  two requests that fail the same condition of the same allowance with different
  currencies get different reasons, each holding the value sent.
\<close>

theorem currency_reason_echoes_request:
  "fst (Evaluate readme_engine [''policies/example.yaml''] ''finance-agent'' ''payments''
          ''create'' gbp_request) = (False, ''Currency GBP not in allowed currencies'') \<and>
   fst (Evaluate readme_engine [''policies/example.yaml''] ''finance-agent'' ''payments''
          ''create'' jpy_request) = (False, ''Currency JPY not in allowed currencies'')"
  by (simp add: fst_Evaluate readme_engine_def readme_policy_def finance_allow_def
      finance_conditions_def gbp_request_def jpy_request_def checkConditions_def
      check_max_amount_def check_currencies_def float64_of_int_5000)

text \<open>
  C7. A \<open>folder_prefix\<close> that is not a string and a \<open>currencies\<close> value that is not a list
  are not condition failures: the block is skipped, and a request that the condition was
  written to stop is allowed.
\<close>

theorem mistyped_condition_is_skipped:
  "validatePolicy misconfigured_policy = None \<and>
   fst (Evaluate misconfigured_engine [''policies/bad.yaml''] ''hr-agent'' ''files'' ''read''
          legal_path) = (True, '''') \<and>
   fst (Evaluate misconfigured_engine [''policies/bad.yaml''] ''finance-agent'' ''payments''
          ''create'' gbp_request) = (True, '''')"
  by (simp add: fst_Evaluate validatePolicy_def misconfigured_engine_def misconfigured_policy_def
      legal_path_def gbp_request_def checkConditions_def check_max_amount_def
      check_currencies_def check_folder_prefix_def)

text \<open>The mismatches that are condition failures: a parameter of the wrong type under a
  condition of the right type, and a \<open>max_amount\<close> that is no number under a numeric
  \<open>amount\<close>.\<close>

lemma mistyped_parameter_fails:
  "conditions ''max_amount'' = Some maxAmount \<Longrightarrow> params ''amount'' = Some amount \<Longrightarrow>
     toFloat64 amount = None \<Longrightarrow>
     checkConditions conditions params = Some ''amount must be a number''"
  "conditions ''max_amount'' = Some maxAmount \<Longrightarrow> params ''amount'' = Some amount \<Longrightarrow>
     toFloat64 amount = Some a \<Longrightarrow> toFloat64 maxAmount = None \<Longrightarrow>
     checkConditions conditions params = Some ''max_amount must be a number''"
  "check_max_amount conditions params = None \<Longrightarrow>
     conditions ''currencies'' = Some (VSlice currencies) \<Longrightarrow> params ''currency'' = Some v \<Longrightarrow>
     (\<forall>s. v \<noteq> VString s) \<Longrightarrow>
     checkConditions conditions params = Some ''currency must be a string''"
  "check_max_amount conditions params = None \<Longrightarrow> check_currencies conditions params = None \<Longrightarrow>
     conditions ''folder_prefix'' = Some (VString prefix) \<Longrightarrow> params ''path'' = Some v \<Longrightarrow>
     (\<forall>s. v \<noteq> VString s) \<Longrightarrow>
     checkConditions conditions params = Some ''path must be a string''"
  by (auto simp: checkConditions_def check_max_amount_def check_currencies_def
      check_folder_prefix_def split: option.splits iface.splits)

section \<open>Evaluate is read-only\<close>

text \<open>
  C10. \<open>Evaluate\<close> leaves the engine as it found it: the store, with every key and every
  policy, and the mutex, released on return. So does the watcher on an event that is
  neither a write, a create nor a remove.
\<close>

theorem Evaluate_read_only:
  "snd (Evaluate pe order agentID tool action params) = pe \<and>
   policies (snd (Evaluate pe order agentID tool action params)) = policies pe \<and>
   (EvOp event AND Write \<noteq> Write \<and> EvOp event AND Create \<noteq> Create \<and>
    EvOp event AND Remove \<noteq> Remove \<longrightarrow>
      handleEvent readFile unmarshal pe event = pe)"
  by (simp add: Evaluate_def handleEvent_def Let_def)

theorem Evaluate_read_only_witness:
  "EvOp chmod_event AND Write \<noteq> Write \<and> EvOp chmod_event AND Create \<noteq> Create \<and>
   EvOp chmod_event AND Remove \<noteq> Remove \<and>
   handleEvent sample_readFile sample_unmarshal readme_engine chmod_event = readme_engine \<and>
   snd (Evaluate readme_engine [''policies/example.yaml''] ''finance-agent'' ''payments''
          ''create'' over_limit) = readme_engine"
  using Evaluate_read_only [of readme_engine "[''policies/example.yaml'']" "''finance-agent''"
      "''payments''" "''create''" over_limit chmod_event sample_readFile sample_unmarshal]
  by (simp add: chmod_event_def Write_def Create_def Remove_def Chmod_def)

section \<open>Loading\<close>

lemma loadPolicyFile_failure:
  "fst (loadPolicyFile readFile unmarshal pe filePath) \<noteq> None \<Longrightarrow>
     snd (loadPolicyFile readFile unmarshal pe filePath) = pe"
  by (simp add: loadPolicyFile_def split: sum.splits option.splits)

lemma policies_loadPolicyFile:
  "policies (snd (loadPolicyFile readFile unmarshal pe filePath)) =
     (case publishable readFile unmarshal filePath of
        None \<Rightarrow> policies pe
      | Some policy \<Rightarrow> (policies pe)(filePath \<mapsto> policy))"
  by (simp add: loadPolicyFile_def publishable_def split: sum.splits option.splits)

lemma baseDir_loadPolicyFile [simp]:
  "baseDir (snd (loadPolicyFile readFile unmarshal pe filePath)) = baseDir pe"
  by (simp add: loadPolicyFile_def split: sum.splits option.splits)

lemma publishable_valid:
  "publishable readFile unmarshal filePath = Some policy \<Longrightarrow> validatePolicy policy = None"
  by (simp add: publishable_def split: sum.splits if_splits)

lemma policies_load_entries:
  "policies (load_entries join readFile unmarshal pe entries) k =
     (if (\<exists>entry \<in> set entries. is_policy_file entry \<and> join (baseDir pe) (Name entry) = k) \<and>
         publishable readFile unmarshal k \<noteq> None
      then publishable readFile unmarshal k
      else policies pe k)"
proof (induction entries arbitrary: pe)
  case Nil
  show ?case by simp
next
  case (Cons entry rest)
  show ?case
  proof (cases "is_policy_file entry")
    case False
    then have "load_entries join readFile unmarshal pe (entry # rest) =
               load_entries join readFile unmarshal pe rest"
      by (auto simp: is_policy_file_def)
    with False show ?thesis by (simp add: Cons.IH)
  next
    case True
    let ?p = "join (baseDir pe) (Name entry)"
    let ?pe1 = "snd (loadPolicyFile readFile unmarshal pe ?p)"
    from True have step: "load_entries join readFile unmarshal pe (entry # rest) =
               load_entries join readFile unmarshal ?pe1 rest"
      by (auto simp: is_policy_file_def)
    show ?thesis
      unfolding step Cons.IH [of ?pe1]
      using True
      by (auto simp: policies_loadPolicyFile split: option.splits)
  qed
qed

lemma validate_readme: "validatePolicy readme_policy = None"
  by (simp add: validatePolicy_def readme_policy_def finance_allow_def hr_allow_def)

lemma publishable_a: "publishable sample_readFile sample_unmarshal ''policies/a.yaml'' = Some readme_policy"
  by (simp add: publishable_def sample_readFile_def sample_unmarshal_def validate_readme)

lemma publishable_b: "publishable sample_readFile sample_unmarshal ''policies/b.yaml'' = None"
  by (simp add: publishable_def sample_readFile_def sample_unmarshal_def)

lemma publishable_c: "publishable sample_readFile sample_unmarshal ''policies/c.yml'' = None"
  by (simp add: publishable_def sample_readFile_def sample_unmarshal_def validatePolicy_def)

lemma sample_files:
  "is_policy_file \<lparr>Name = ''a.yaml'', IsDir = False\<rparr>"
  "is_policy_file \<lparr>Name = ''b.yaml'', IsDir = False\<rparr>"
  "is_policy_file \<lparr>Name = ''c.yml'', IsDir = False\<rparr>"
  by (simp_all add: is_policy_file_def Ext_def)

lemma sample_dir: "sample_readDir (baseDir empty_engine) = Entries sample_entries"
  by (simp add: sample_readDir_def empty_engine_def)

lemma reload_b_fails:
  "fst (loadPolicyFile sample_readFile sample_unmarshal edited_engine ''policies/b.yaml'') \<noteq> None"
  by (simp add: loadPolicyFile_def sample_readFile_def sample_unmarshal_def)

text \<open>
  C5. A load that fails (the file cannot be read, does not parse or is not valid) returns
  the engine unchanged, so that a failed reload keeps the last good policy; a load changes
  the store at the loaded source only, and only to a policy that was read, decoded and
  found valid. After a directory load every policy file that loads is published under its
  path, every one that fails keeps the entry it had (none at start-up), and nothing else
  in the store changes.
\<close>

theorem load_isolated_per_source:
  "(fst (loadPolicyFile readFile unmarshal pe filePath) \<noteq> None \<longrightarrow>
      snd (loadPolicyFile readFile unmarshal pe filePath) = pe) \<and>
   (\<forall>k. policies (snd (loadPolicyFile readFile unmarshal pe filePath)) k \<noteq> policies pe k \<longrightarrow>
      k = filePath \<and>
      (\<exists>policy. policies (snd (loadPolicyFile readFile unmarshal pe filePath)) k = Some policy \<and>
         publishable readFile unmarshal filePath = Some policy \<and> validatePolicy policy = None)) \<and>
   (readDir (baseDir pe) = Entries entries \<longrightarrow>
      fst (loadAllPolicies readDir join readFile unmarshal pe) = None \<and>
      (\<forall>entry \<in> set entries. is_policy_file entry \<longrightarrow>
         policies (snd (loadAllPolicies readDir join readFile unmarshal pe))
            (join (baseDir pe) (Name entry)) =
           (case publishable readFile unmarshal (join (baseDir pe) (Name entry)) of
              Some policy \<Rightarrow> Some policy
            | None \<Rightarrow> policies pe (join (baseDir pe) (Name entry)))) \<and>
      (\<forall>k. policies (snd (loadAllPolicies readDir join readFile unmarshal pe)) k \<noteq> policies pe k \<longrightarrow>
         (\<exists>entry \<in> set entries. is_policy_file entry \<and> k = join (baseDir pe) (Name entry)) \<and>
         (\<exists>policy. policies (snd (loadAllPolicies readDir join readFile unmarshal pe)) k = Some policy \<and>
            publishable readFile unmarshal k = Some policy \<and> validatePolicy policy = None)))"
proof (intro conjI impI allI ballI)
  assume "fst (loadPolicyFile readFile unmarshal pe filePath) \<noteq> None"
  then show "snd (loadPolicyFile readFile unmarshal pe filePath) = pe"
    by (rule loadPolicyFile_failure)
next
  fix k
  assume "policies (snd (loadPolicyFile readFile unmarshal pe filePath)) k \<noteq> policies pe k"
  then show "k = filePath"
    by (auto simp: policies_loadPolicyFile split: option.splits if_splits)
next
  fix k
  assume "policies (snd (loadPolicyFile readFile unmarshal pe filePath)) k \<noteq> policies pe k"
  then show "\<exists>policy. policies (snd (loadPolicyFile readFile unmarshal pe filePath)) k = Some policy \<and>
         publishable readFile unmarshal filePath = Some policy \<and> validatePolicy policy = None"
    by (auto simp: policies_loadPolicyFile publishable_valid split: option.splits if_splits)
next
  assume "readDir (baseDir pe) = Entries entries"
  then show "fst (loadAllPolicies readDir join readFile unmarshal pe) = None"
    by (simp add: loadAllPolicies_def)
next
  fix entry
  assume r: "readDir (baseDir pe) = Entries entries"
    and e: "entry \<in> set entries" "is_policy_file entry"
  from r have "snd (loadAllPolicies readDir join readFile unmarshal pe) =
               load_entries join readFile unmarshal pe entries"
    by (simp add: loadAllPolicies_def)
  then show "policies (snd (loadAllPolicies readDir join readFile unmarshal pe))
            (join (baseDir pe) (Name entry)) =
           (case publishable readFile unmarshal (join (baseDir pe) (Name entry)) of
              Some policy \<Rightarrow> Some policy
            | None \<Rightarrow> policies pe (join (baseDir pe) (Name entry)))"
    using e by (auto simp: policies_load_entries split: option.splits)
next
  fix k
  assume r: "readDir (baseDir pe) = Entries entries"
    and k: "policies (snd (loadAllPolicies readDir join readFile unmarshal pe)) k \<noteq> policies pe k"
  from r have s: "snd (loadAllPolicies readDir join readFile unmarshal pe) =
               load_entries join readFile unmarshal pe entries"
    by (simp add: loadAllPolicies_def)
  from k show "\<exists>entry \<in> set entries. is_policy_file entry \<and> k = join (baseDir pe) (Name entry)"
    unfolding s policies_load_entries by (auto split: if_splits)
next
  fix k
  assume r: "readDir (baseDir pe) = Entries entries"
    and k: "policies (snd (loadAllPolicies readDir join readFile unmarshal pe)) k \<noteq> policies pe k"
  from r have s: "snd (loadAllPolicies readDir join readFile unmarshal pe) =
               load_entries join readFile unmarshal pe entries"
    by (simp add: loadAllPolicies_def)
  from k show "\<exists>policy. policies (snd (loadAllPolicies readDir join readFile unmarshal pe)) k = Some policy \<and>
            publishable readFile unmarshal k = Some policy \<and> validatePolicy policy = None"
    unfolding s policies_load_entries by (auto simp: publishable_valid split: if_splits)
qed

theorem load_isolated_per_source_witness:
  "sample_readDir (baseDir empty_engine) = Entries sample_entries \<and>
   policies (snd (loadAllPolicies sample_readDir join_slash sample_readFile sample_unmarshal
      empty_engine)) ''policies/a.yaml'' = Some readme_policy \<and>
   policies (snd (loadAllPolicies sample_readDir join_slash sample_readFile sample_unmarshal
      empty_engine)) ''policies/b.yaml'' = None \<and>
   policies (snd (loadAllPolicies sample_readDir join_slash sample_readFile sample_unmarshal
      empty_engine)) ''policies/c.yml'' = None \<and>
   fst (loadPolicyFile sample_readFile sample_unmarshal edited_engine ''policies/b.yaml'') \<noteq> None \<and>
   snd (loadPolicyFile sample_readFile sample_unmarshal edited_engine ''policies/b.yaml'') =
     edited_engine"
proof -
  note t = load_isolated_per_source [of sample_readFile sample_unmarshal _ _ sample_readDir _
      join_slash]
  let ?pe = "snd (loadAllPolicies sample_readDir join_slash sample_readFile sample_unmarshal
      empty_engine)"
  have all: "\<forall>entry \<in> set sample_entries. is_policy_file entry \<longrightarrow>
         policies ?pe (join_slash (baseDir empty_engine) (Name entry)) =
           (case publishable sample_readFile sample_unmarshal
                   (join_slash (baseDir empty_engine) (Name entry)) of
              Some policy \<Rightarrow> Some policy
            | None \<Rightarrow> policies empty_engine (join_slash (baseDir empty_engine) (Name entry)))"
    using t [of empty_engine "''policies/a.yaml''" sample_entries] sample_dir by blast
  have a: "policies ?pe ''policies/a.yaml'' = Some readme_policy"
    using all [rule_format, of "\<lparr>Name = ''a.yaml'', IsDir = False\<rparr>"]
    by (simp add: sample_entries_def sample_files join_slash_def empty_engine_def publishable_a)
  have b: "policies ?pe ''policies/b.yaml'' = None"
    using all [rule_format, of "\<lparr>Name = ''b.yaml'', IsDir = False\<rparr>"]
    by (simp add: sample_entries_def sample_files join_slash_def empty_engine_def publishable_b)
  have c: "policies ?pe ''policies/c.yml'' = None"
    using all [rule_format, of "\<lparr>Name = ''c.yml'', IsDir = False\<rparr>"]
    by (simp add: sample_entries_def sample_files join_slash_def empty_engine_def publishable_c)
  have d: "snd (loadPolicyFile sample_readFile sample_unmarshal edited_engine ''policies/b.yaml'') =
     edited_engine"
    using t [of edited_engine "''policies/b.yaml''" sample_entries] reload_b_fails by blast
  from sample_dir a b c reload_b_fails d show ?thesis by blast
qed

section \<open>Removal of a source\<close>

lemma policies_handleEvent_remove:
  assumes "EvOp event AND Remove = Remove"
  shows "policies (handleEvent readFile unmarshal pe event) = (policies pe)(EvName event := None)"
  using assms
  by (auto simp: handleEvent_def Let_def policies_loadPolicyFile split: option.splits)

lemma visited_remove:
  "visited (store(name := None)) order = visited store (filter (\<lambda>k. k \<noteq> name) order)"
  by (induction order) (auto split: option.splits)

lemma matching_Cons:
  "matching (p # ps) agentID tool action = matching [p] agentID tool action @ matching ps agentID tool action"
  by (simp add: matching_def)

lemma matching_visited_filter:
  assumes "\<forall>p. store name = Some p \<longrightarrow> matching [p] agentID tool action = []"
  shows "matching (visited store (filter (\<lambda>k. k \<noteq> name) order)) agentID tool action =
         matching (visited store order) agentID tool action"
proof (induction order)
  case Nil
  show ?case by simp
next
  case (Cons k ks)
  show ?case
  proof (cases "k = name")
    case True
    show ?thesis
    proof (cases "store name")
      case None
      with True Cons show ?thesis by simp
    next
      case (Some p)
      with assms have "matching [p] agentID tool action = []" by simp
      with True Some Cons show ?thesis
        by (simp add: matching_Cons [of p "visited store ks"])
    qed
  next
    case False
    with Cons show ?thesis
      by (cases "store k") (simp_all add: matching_Cons [of _ "visited store (filter (\<lambda>k. k \<noteq> name) ks)"]
          matching_Cons [of _ "visited store ks"])
  qed
qed

lemma fst_Evaluate_matching:
  "fst (Evaluate pe order agentID tool action params) =
     (case matching (visited (policies pe) order) agentID tool action of
        [] \<Rightarrow> (False, not_allowed agentID tool action)
      | al # _ \<Rightarrow> decide al params)"
  by (cases "matching (visited (policies pe) order) agentID tool action")
     (simp_all add: fst_Evaluate eval_policies_first)

text \<open>
  C6. Handling an event that has the Remove flag deletes the entry of the event's source,
  whatever else the event carries, and leaves every other entry as it was. From then on
  an agent that has allowances in no other source is denied on every call, in every order
  of visit; and a call that no allowance of the removed source matches is answered as
  before the removal.
\<close>

theorem remove_event_deletes_source:
  assumes "EvOp event AND Remove = Remove"
  shows "policies (handleEvent readFile unmarshal pe event) (EvName event) = None \<and>
         (\<forall>k. k \<noteq> EvName event \<longrightarrow>
            policies (handleEvent readFile unmarshal pe event) k = policies pe k) \<and>
         (\<forall>order agentID tool action params.
            (\<forall>k p. k \<noteq> EvName event \<longrightarrow> policies pe k = Some p \<longrightarrow>
               (\<forall>ag \<in> set (Agents p). ID ag = agentID \<longrightarrow> Allow ag = [])) \<longrightarrow>
            fst (Evaluate (handleEvent readFile unmarshal pe event) order agentID tool action params) =
              (False, ''Agent '' @ agentID @ '' is not allowed to perform action '' @ action
                 @ '' on tool '' @ tool)) \<and>
         (\<forall>order agentID tool action params.
            (\<forall>p. policies pe (EvName event) = Some p \<longrightarrow> matching [p] agentID tool action = []) \<longrightarrow>
            fst (Evaluate (handleEvent readFile unmarshal pe event)
                   (filter (\<lambda>k. k \<noteq> EvName event) order) agentID tool action params) =
              fst (Evaluate pe order agentID tool action params)) \<and>
         (\<forall>order. range_order pe order \<longrightarrow>
            range_order (handleEvent readFile unmarshal pe event)
              (filter (\<lambda>k. k \<noteq> EvName event) order))"
proof -
  let ?pe = "handleEvent readFile unmarshal pe event"
  note s = policies_handleEvent_remove [OF assms, of readFile unmarshal pe]
  have a: "policies ?pe (EvName event) = None" by (simp add: s)
  have b: "\<forall>k. k \<noteq> EvName event \<longrightarrow> policies ?pe k = policies pe k" by (simp add: s)
  have c: "fst (Evaluate ?pe order agentID tool action params) =
              (False, ''Agent '' @ agentID @ '' is not allowed to perform action '' @ action
                 @ '' on tool '' @ tool)"
    if h: "\<forall>k p. k \<noteq> EvName event \<longrightarrow> policies pe k = Some p \<longrightarrow>
               (\<forall>ag \<in> set (Agents p). ID ag = agentID \<longrightarrow> Allow ag = [])"
    for order agentID tool action params
  proof -
    have "matching (visited (policies ?pe) order) agentID tool action = []"
      unfolding matching_empty_iff set_visited s using h by (auto split: if_splits)
    then show ?thesis by (simp add: fst_Evaluate_matching not_allowed_def)
  qed
  have d: "fst (Evaluate ?pe (filter (\<lambda>k. k \<noteq> EvName event) order) agentID tool action params) =
              fst (Evaluate pe order agentID tool action params)"
    if h: "\<forall>p. policies pe (EvName event) = Some p \<longrightarrow> matching [p] agentID tool action = []"
    for order agentID tool action params
  proof -
    have "visited (policies ?pe) (filter (\<lambda>k. k \<noteq> EvName event) order) =
          visited (policies pe) (filter (\<lambda>k. k \<noteq> EvName event) order)"
      unfolding s visited_remove by simp
    moreover have "matching (visited (policies pe) (filter (\<lambda>k. k \<noteq> EvName event) order))
                    agentID tool action =
                   matching (visited (policies pe) order) agentID tool action"
      using h by (rule matching_visited_filter [of "policies pe" "EvName event"])
    ultimately show ?thesis
      by (simp add: fst_Evaluate_matching)
  qed
  have e: "range_order ?pe (filter (\<lambda>k. k \<noteq> EvName event) order)" if "range_order pe order" for order
    using that unfolding range_order_def s by auto
  from a b c d e show ?thesis by blast
qed

lemma remove_bit: "EvOp remove_finance AND Remove = Remove"
  by (simp add: remove_finance_def)

lemma matching_finance_hr:
  "matching [finance_only_policy] ''hr-agent'' ''files'' ''read'' = []"
  by (simp add: matching_def finance_only_policy_def)

lemma two_source_finance:
  "policies two_source_engine ''policies/finance.yaml'' = Some finance_only_policy"
  by (simp add: two_source_engine_def)

lemma eval_hr_before:
  "fst (Evaluate two_source_engine [''policies/finance.yaml'', ''policies/hr.yaml'']
          ''hr-agent'' ''files'' ''read'' hr_doc) = (True, '''')"
  by (simp add: fst_Evaluate two_source_engine_def finance_only_policy_def hr_only_policy_def
      hr_allow_def hr_conditions_def hr_doc_def checkConditions_def check_max_amount_def
      check_currencies_def check_folder_prefix_def)

theorem remove_event_deletes_source_witness:
  "EvOp remove_finance AND Remove = Remove \<and>
   policies (handleEvent sample_readFile sample_unmarshal two_source_engine remove_finance)
     ''policies/finance.yaml'' = None \<and>
   policies (handleEvent sample_readFile sample_unmarshal two_source_engine remove_finance)
     ''policies/hr.yaml'' = Some hr_only_policy \<and>
   fst (Evaluate (handleEvent sample_readFile sample_unmarshal two_source_engine remove_finance)
          [''policies/hr.yaml''] ''finance-agent'' ''payments'' ''create'' at_limit) =
     (False, ''Agent finance-agent is not allowed to perform action create on tool payments'') \<and>
   fst (Evaluate (handleEvent sample_readFile sample_unmarshal two_source_engine remove_finance)
          [''policies/hr.yaml''] ''hr-agent'' ''files'' ''read'' hr_doc) = (True, '''')"
proof -
  note t = remove_event_deletes_source [OF remove_bit, of sample_readFile sample_unmarshal
      two_source_engine]
  let ?pe = "handleEvent sample_readFile sample_unmarshal two_source_engine remove_finance"
  have a: "policies ?pe ''policies/finance.yaml'' = None"
    using t by (simp add: remove_finance_def)
  have "''policies/hr.yaml'' \<noteq> EvName remove_finance"
    by (simp add: remove_finance_def)
  with t have "policies ?pe ''policies/hr.yaml'' = policies two_source_engine ''policies/hr.yaml''"
    by blast
  then have b: "policies ?pe ''policies/hr.yaml'' = Some hr_only_policy"
    by (simp add: two_source_engine_def)
  have h: "\<forall>k p. k \<noteq> EvName remove_finance \<longrightarrow> policies two_source_engine k = Some p \<longrightarrow>
               (\<forall>ag \<in> set (Agents p). ID ag = ''finance-agent'' \<longrightarrow> Allow ag = [])"
    by (auto simp: remove_finance_def two_source_engine_def hr_only_policy_def split: if_splits)
  from t have "\<forall>order agentID tool action params.
            (\<forall>k p. k \<noteq> EvName remove_finance \<longrightarrow> policies two_source_engine k = Some p \<longrightarrow>
               (\<forall>ag \<in> set (Agents p). ID ag = agentID \<longrightarrow> Allow ag = [])) \<longrightarrow>
            fst (Evaluate ?pe order agentID tool action params) =
              (False, ''Agent '' @ agentID @ '' is not allowed to perform action '' @ action
                 @ '' on tool '' @ tool)"
    by blast
  with h have c: "fst (Evaluate ?pe [''policies/hr.yaml''] ''finance-agent'' ''payments''
          ''create'' at_limit) =
     (False, ''Agent '' @ ''finance-agent'' @ '' is not allowed to perform action '' @ ''create''
                 @ '' on tool '' @ ''payments'')"
    by blast
  have g: "\<forall>p. policies two_source_engine (EvName remove_finance) = Some p \<longrightarrow>
             matching [p] ''hr-agent'' ''files'' ''read'' = []"
    by (simp add: remove_finance_def two_source_finance matching_finance_hr)
  from t have "\<forall>order agentID tool action params.
            (\<forall>p. policies two_source_engine (EvName remove_finance) = Some p \<longrightarrow>
               matching [p] agentID tool action = []) \<longrightarrow>
            fst (Evaluate ?pe (filter (\<lambda>k. k \<noteq> EvName remove_finance) order) agentID tool action
                   params) =
              fst (Evaluate two_source_engine order agentID tool action params)"
    by blast
  with g have "fst (Evaluate ?pe (filter (\<lambda>k. k \<noteq> EvName remove_finance)
                  [''policies/finance.yaml'', ''policies/hr.yaml'']) ''hr-agent'' ''files'' ''read''
                  hr_doc) =
        fst (Evaluate two_source_engine [''policies/finance.yaml'', ''policies/hr.yaml'']
               ''hr-agent'' ''files'' ''read'' hr_doc)"
    by blast
  then have d: "fst (Evaluate ?pe [''policies/hr.yaml''] ''hr-agent'' ''files'' ''read'' hr_doc) =
      (True, '''')"
    by (simp add: remove_finance_def eval_hr_before)
  from remove_bit a b c d show ?thesis by simp
qed

section \<open>The gateway's responses\<close>

lemma status_http_Error [simp]: "status (http_Error new_writer err code) = Some code"
  by (simp add: http_Error_def write_body_def WriteHeader_def header_Set_def header_Del_def
      new_writer_def)

lemma denial_response:
  "write_body (JSON body)
     (WriteHeader StatusForbidden (header_Set ''Content-Type'' ''application/json'' new_writer)) =
   \<lparr>status = Some 403, headers = [(''Content-Type'', ''application/json'')],
    written = [JSON body]\<rparr>"
  by (simp add: write_body_def WriteHeader_def header_Set_def new_writer_def StatusForbidden_def)

lemma parts_payments: "Split (TrimPrefix ''/tools/payments/create'' ''/'') CHR ''/'' =
   [''tools'', ''payments'', ''create'']"
  by (simp add: TrimPrefix_def)

lemma parts_shell: "Split (TrimPrefix ''/tools/shell/run'' ''/'') CHR ''/'' =
   [''tools'', ''shell'', ''run'']"
  by (simp add: TrimPrefix_def)

lemma parts_health: "Split (TrimPrefix ''/health'' ''/'') CHR ''/'' = [''health'']"
  by (simp add: TrimPrefix_def)

lemma eval_unknown_tool:
  "fst (Evaluate readme_engine [''policies/example.yaml''] ''finance-agent'' ''shell'' ''run''
     Map.empty) =
   (False, ''Agent finance-agent is not allowed to perform action run on tool shell'')"
  by (simp add: fst_Evaluate readme_engine_def readme_policy_def finance_allow_def hr_allow_def
      not_allowed_def)

lemma bad_json_undecoded: "decoded sample_json bad_json_request = None"
  by (simp add: decoded_def bad_json_request_def sample_json_def)

lemma over_limit_decoded: "decoded sample_json over_limit_request = Some over_limit"
  by (simp add: decoded_def over_limit_request_def sample_json_def)

lemma eval_over_limit:
  "fst (Evaluate readme_engine [''policies/example.yaml''] ''finance-agent'' ''payments''
     ''create'' over_limit) = (False, ''Amount exceeds max_amount=5000'')"
  by (simp add: fst_Evaluate readme_engine_def readme_policy_def finance_allow_def check_over)

lemma shell_decoded: "decoded sample_json shell_request = Some Map.empty"
  by (simp add: decoded_def shell_request_def)

lemma eval_shell:
  "fst (Evaluate shell_engine [''policies/ops.yaml''] ''ops-agent'' ''shell'' ''run'' Map.empty) =
     (True, '''')"
  by (simp add: fst_Evaluate shell_engine_def)

lemma over_limit_agent: "XAgentID over_limit_request = ''finance-agent''"
  by (simp add: over_limit_request_def)

lemma shell_agent: "XAgentID shell_request = ''ops-agent''"
  by (simp add: shell_request_def)

lemma Split_no_sep: "sep \<notin> set xs \<Longrightarrow> Split xs sep = [xs]"
  by (induction xs) auto

lemma Split_append: "sep \<notin> set xs \<Longrightarrow> Split (xs @ sep # ys) sep = xs # Split ys sep"
  by (induction xs) auto

lemma pathParts_shape:
  assumes "path_shape r tool action"
  shows "pathParts r = [''tools'', tool, action]"
proof -
  from assms have u: "URLPath r = ''/tools/'' @ tool @ ''/'' @ action"
    and t: "CHR ''/'' \<notin> set tool" and a: "CHR ''/'' \<notin> set action"
    by (simp_all add: path_shape_def)
  have tp: "TrimPrefix (URLPath r) ''/'' = ''tools'' @ CHR ''/'' # (tool @ CHR ''/'' # action)"
    unfolding u by (simp add: TrimPrefix_def)
  have "Split (''tools'' @ CHR ''/'' # (tool @ CHR ''/'' # action)) CHR ''/'' =
        ''tools'' # Split (tool @ CHR ''/'' # action) CHR ''/''"
    by (rule Split_append) simp
  then have "pathParts r = ''tools'' # Split (tool @ CHR ''/'' # action) CHR ''/''"
    unfolding pathParts_def tp .
  also have "Split (tool @ CHR ''/'' # action) CHR ''/'' = tool # Split action CHR ''/''"
    using t by (rule Split_append)
  also have "Split action CHR ''/'' = [action]"
    using a by (rule Split_no_sep)
  finally show ?thesis .
qed

text \<open>
  C8, as amended. The gateway answers 400 to a path of fewer than three segments or
  whose first segment is not \<open>tools\<close> (no such path has the shape
  \<open>/tools/{tool}/{action}\<close>), to a request without agent header, and to a body that
  cannot be read or is not a JSON object. To a request whose path has the shape
  \<open>/tools/{tool}/{action}\<close>, with agent header and a body that decodes, it answers 403
  with the JSON body that carries the error kind and the evaluator's reason when the policy
  denies the call, whether the tool is registered or not, and 400 when the policy allows
  the call and the tool has no registered address. Nothing is said here of the other
  paths that begin with \<open>tools\<close>.
\<close>

theorem HandleRequest_responses:
  "(length (pathParts r) < 3 \<or> pathParts r ! 0 \<noteq> ''tools'' \<longrightarrow>
      status (HandleRequest unmarshal send g order r new_writer) = Some 400 \<and>
      \<not> path_shape r tool action) \<and>
   (XAgentID r = '''' \<longrightarrow>
      status (HandleRequest unmarshal send g order r new_writer) = Some 400) \<and>
   (decoded unmarshal r = None \<longrightarrow>
      status (HandleRequest unmarshal send g order r new_writer) = Some 400) \<and>
   (path_shape r tool action \<and> XAgentID r \<noteq> '''' \<and> decoded unmarshal r = Some params \<and>
    fst (Evaluate (policyEngine g) order (XAgentID r) tool action params) = (False, reason) \<longrightarrow>
      HandleRequest unmarshal send g order r new_writer =
        \<lparr>status = Some 403, headers = [(''Content-Type'', ''application/json'')],
         written = [JSON [(''error'', ''PolicyViolation''), (''reason'', reason)]]\<rparr>) \<and>
   (path_shape r tool action \<and> XAgentID r \<noteq> '''' \<and> decoded unmarshal r = Some params \<and>
    fst (Evaluate (policyEngine g) order (XAgentID r) tool action params) = (True, reason) \<and>
    toolURLs g tool = None \<longrightarrow>
      status (HandleRequest unmarshal send g order r new_writer) = Some 400)"
proof (intro conjI impI)
  assume "length (pathParts r) < 3 \<or> pathParts r ! 0 \<noteq> ''tools''"
  then show "status (HandleRequest unmarshal send g order r new_writer) = Some 400"
    by (auto simp: HandleRequest_def Let_def pathParts_def StatusBadRequest_def)
next
  assume "length (pathParts r) < 3 \<or> pathParts r ! 0 \<noteq> ''tools''"
  then show "\<not> path_shape r tool action"
    using pathParts_shape [of r tool action] by auto
next
  assume "XAgentID r = ''''"
  then show "status (HandleRequest unmarshal send g order r new_writer) = Some 400"
    by (simp add: HandleRequest_def Let_def StatusBadRequest_def)
next
  assume "decoded unmarshal r = None"
  then show "status (HandleRequest unmarshal send g order r new_writer) = Some 400"
    by (auto simp: HandleRequest_def Let_def decoded_def StatusBadRequest_def
        split: sum.splits if_splits)
next
  assume a: "path_shape r tool action \<and> XAgentID r \<noteq> '''' \<and> decoded unmarshal r = Some params \<and>
    fst (Evaluate (policyEngine g) order (XAgentID r) tool action params) = (False, reason)"
  then have p: "Split (TrimPrefix (URLPath r) ''/'') CHR ''/'' = [''tools'', tool, action]"
    using pathParts_shape [of r tool action] by (simp add: pathParts_def)
  from a show "HandleRequest unmarshal send g order r new_writer =
        \<lparr>status = Some 403, headers = [(''Content-Type'', ''application/json'')],
         written = [JSON [(''error'', ''PolicyViolation''), (''reason'', reason)]]\<rparr>"
    by (auto simp: HandleRequest_def Let_def p decoded_def denial_response
        split: sum.splits if_splits)
next
  assume a: "path_shape r tool action \<and> XAgentID r \<noteq> '''' \<and> decoded unmarshal r = Some params \<and>
    fst (Evaluate (policyEngine g) order (XAgentID r) tool action params) = (True, reason) \<and>
    toolURLs g tool = None"
  then have p: "Split (TrimPrefix (URLPath r) ''/'') CHR ''/'' = [''tools'', tool, action]"
    using pathParts_shape [of r tool action] by (simp add: pathParts_def)
  from a show "status (HandleRequest unmarshal send g order r new_writer) = Some 400"
    by (auto simp: HandleRequest_def Let_def p decoded_def StatusBadRequest_def
        split: sum.splits if_splits)
qed

lemma bad_path_short: "length (pathParts bad_path_request) < 3"
  by (simp add: pathParts_def bad_path_request_def parts_health)

lemma over_limit_shape: "path_shape over_limit_request ''payments'' ''create''"
  by (simp add: path_shape_def over_limit_request_def)

lemma shell_shape: "path_shape shell_request ''shell'' ''run''"
  by (simp add: path_shape_def shell_request_def)

theorem HandleRequest_responses_witness:
  "length (pathParts bad_path_request) < 3 \<and>
   status (HandleRequest sample_json refusing_client (NewGateway readme_engine)
     [''policies/example.yaml''] bad_path_request new_writer) = Some 400 \<and>
   XAgentID anonymous_request = '''' \<and>
   status (HandleRequest sample_json refusing_client (NewGateway readme_engine)
     [''policies/example.yaml''] anonymous_request new_writer) = Some 400 \<and>
   decoded sample_json bad_json_request = None \<and>
   status (HandleRequest sample_json refusing_client (NewGateway readme_engine)
     [''policies/example.yaml''] bad_json_request new_writer) = Some 400 \<and>
   path_shape over_limit_request ''payments'' ''create'' \<and>
   HandleRequest sample_json refusing_client (NewGateway readme_engine)
     [''policies/example.yaml''] over_limit_request new_writer =
     \<lparr>status = Some 403, headers = [(''Content-Type'', ''application/json'')],
      written = [JSON [(''error'', ''PolicyViolation''),
                       (''reason'', ''Amount exceeds max_amount=5000'')]]\<rparr> \<and>
   path_shape shell_request ''shell'' ''run'' \<and>
   toolURLs (NewGateway shell_engine) ''shell'' = None \<and>
   status (HandleRequest sample_json refusing_client (NewGateway shell_engine)
     [''policies/ops.yaml''] shell_request new_writer) = Some 400"
proof -
  note t = HandleRequest_responses [where unmarshal = sample_json and send = refusing_client
      and g = "NewGateway readme_engine" and order = "[''policies/example.yaml'']"]
  note t' = HandleRequest_responses [where unmarshal = sample_json and send = refusing_client
      and g = "NewGateway shell_engine" and order = "[''policies/ops.yaml'']"]
  have a: "status (HandleRequest sample_json refusing_client (NewGateway readme_engine)
     [''policies/example.yaml''] bad_path_request new_writer) = Some 400"
    using t [where r = bad_path_request] bad_path_short by blast
  have n: "XAgentID anonymous_request = ''''"
    by (simp add: anonymous_request_def)
  have b: "status (HandleRequest sample_json refusing_client (NewGateway readme_engine)
     [''policies/example.yaml''] anonymous_request new_writer) = Some 400"
    using t [where r = anonymous_request] n by blast
  have c: "status (HandleRequest sample_json refusing_client (NewGateway readme_engine)
     [''policies/example.yaml''] bad_json_request new_writer) = Some 400"
    using t [where r = bad_json_request] bad_json_undecoded by blast
  have e: "fst (Evaluate (policyEngine (NewGateway readme_engine)) [''policies/example.yaml'']
       (XAgentID over_limit_request) ''payments'' ''create'' over_limit) =
       (False, ''Amount exceeds max_amount=5000'')"
    by (simp add: NewGateway_def over_limit_agent eval_over_limit)
  have x: "XAgentID over_limit_request \<noteq> ''''"
    by (simp add: over_limit_request_def)
  have d: "HandleRequest sample_json refusing_client (NewGateway readme_engine)
     [''policies/example.yaml''] over_limit_request new_writer =
     \<lparr>status = Some 403, headers = [(''Content-Type'', ''application/json'')],
      written = [JSON [(''error'', ''PolicyViolation''),
                       (''reason'', ''Amount exceeds max_amount=5000'')]]\<rparr>"
    using t [where r = over_limit_request and tool = "''payments''" and action = "''create''"
        and params = over_limit and reason = "''Amount exceeds max_amount=5000''"]
      over_limit_shape x over_limit_decoded e
    by blast
  have u: "toolURLs (NewGateway shell_engine) ''shell'' = None"
    by (simp add: NewGateway_def)
  have f: "fst (Evaluate (policyEngine (NewGateway shell_engine)) [''policies/ops.yaml'']
       (XAgentID shell_request) ''shell'' ''run'' Map.empty) = (True, '''')"
    by (simp add: NewGateway_def shell_agent eval_shell)
  have y: "XAgentID shell_request \<noteq> ''''"
    by (simp add: shell_request_def)
  have g: "status (HandleRequest sample_json refusing_client (NewGateway shell_engine)
     [''policies/ops.yaml''] shell_request new_writer) = Some 400"
    using t' [where r = shell_request and tool = "''shell''" and action = "''run''"
        and params = Map.empty and reason = "''''"]
      shell_shape y shell_decoded f u
    by blast
  from bad_path_short a n b bad_json_undecoded c over_limit_shape d shell_shape u g
  show ?thesis by blast
qed

lemma parts_extra: "Split (TrimPrefix ''/tools/payments/create/extra'' ''/'') CHR ''/'' =
   [''tools'', ''payments'', ''create'', ''extra'']"
  by (simp add: TrimPrefix_def)

text \<open>
  The policy is evaluated before the tool is looked up: a call to a tool that has no
  registered address and that no policy grants is answered 403, not 400. And a path of
  four segments, which has not the shape \<open>/tools/{tool}/{action}\<close>, passes the path test:
  its first three segments are evaluated, and the denial is answered 403, not 400.
\<close>

theorem denied_before_lookup_and_long_path:
  "toolURLs (NewGateway readme_engine) ''shell'' = None \<and>
   HandleRequest sample_json refusing_client (NewGateway readme_engine)
     [''policies/example.yaml''] unknown_tool_request new_writer =
     \<lparr>status = Some 403, headers = [(''Content-Type'', ''application/json'')],
      written = [JSON [(''error'', ''PolicyViolation''),
        (''reason'', ''Agent finance-agent is not allowed to perform action run on tool shell'')]]\<rparr> \<and>
   status (HandleRequest sample_json refusing_client (NewGateway readme_engine)
     [''policies/example.yaml''] unknown_tool_request new_writer) \<noteq> Some 400 \<and>
   pathParts extra_segment_request = [''tools'', ''payments'', ''create'', ''extra''] \<and>
   status (HandleRequest sample_json refusing_client (NewGateway readme_engine)
     [''policies/example.yaml''] extra_segment_request new_writer) = Some 403"
proof -
  have a: "HandleRequest sample_json refusing_client (NewGateway readme_engine)
     [''policies/example.yaml''] unknown_tool_request new_writer =
     \<lparr>status = Some 403, headers = [(''Content-Type'', ''application/json'')],
      written = [JSON [(''error'', ''PolicyViolation''),
        (''reason'', ''Agent finance-agent is not allowed to perform action run on tool shell'')]]\<rparr>"
    by (simp add: HandleRequest_def Let_def unknown_tool_request_def parts_shell NewGateway_def
        eval_unknown_tool denial_response)
  have b: "pathParts extra_segment_request = [''tools'', ''payments'', ''create'', ''extra'']"
    by (simp add: pathParts_def extra_segment_request_def parts_extra)
  have c: "status (HandleRequest sample_json refusing_client (NewGateway readme_engine)
     [''policies/example.yaml''] extra_segment_request new_writer) = Some 403"
    by (simp add: HandleRequest_def Let_def extra_segment_request_def parts_extra NewGateway_def
        sample_json_def eval_over_limit denial_response)
  have d: "toolURLs (NewGateway readme_engine) ''shell'' = None"
    by (simp add: NewGateway_def)
  from a b c d show ?thesis by simp
qed

end
